theory Spec2Isabelle
  imports
    Complex_Main
    "HOL-Library.Word"
    "HOL-Library.Char_ord"
    "HOL-Library.List_Lexorder"
    "HOL-Library.Multiset"
begin

section \<open>Data model (types/message.ts)\<close>

text \<open>
  Each TypeScript interface is a record. Field names carry a short prefix of the
  interface (\<open>m_\<close> for Message, \<open>c_\<close> for Chat, \<open>p_\<close> for Peer, ...) because several
  interfaces share field names (\<open>id\<close>, \<open>timestamp\<close>, \<open>status\<close>). An optional field
  \<open>f?: T\<close> has type \<open>T option\<close>. Identifiers and names are \<open>char list\<close>, bytes
  (\<open>Uint8Array\<close> elements) are 8-bit words. The text of a message is kept as its
  UTF-16 code units, since the encryption encodes it and the encoder tells
  well-formed strings from others.

  The \<open>number\<close> fields that the program itself fills (\<open>Date.now()\<close> milliseconds
  and counters) are integers. The timestamp of a message is different: the
  socket handler copies it unchecked from the wire (\<open>payload.data?.timestamp ||
  payload.timestamp\<close>), so it is any JavaScript number, and a timestamp that is
  missing or not numeric reads as \<open>NaN\<close> in the arithmetic of the sort.
\<close>

type_synonym byte = "8 word"
type_synonym bytes = "byte list"
type_synonym jsString = "16 word list"

text \<open>A string of ASCII characters as code units.\<close>

definition utf16 :: "string \<Rightarrow> jsString" where
  "utf16 s = map (\<lambda>c. of_nat (of_char c)) s"

text \<open>
  JavaScript numbers: the finite ones (every double is a real), the two
  infinities and \<open>NaN\<close>.
\<close>

datatype JsNumber = Num real | PosInfinity | NegInfinity | NaN

text \<open>
  The subtraction \<open>a - b\<close>. On finite numbers the double result is the rounded
  difference; rounding keeps the sign and keeps a difference of distinct numbers
  away from zero, and the sort reads nothing but the sign, so the exact
  difference stands for it.
\<close>

fun jsMinus :: "JsNumber \<Rightarrow> JsNumber \<Rightarrow> JsNumber" where
  "jsMinus NaN b = NaN"
| "jsMinus a NaN = NaN"
| "jsMinus (Num a) (Num b) = Num (a - b)"
| "jsMinus (Num a) PosInfinity = NegInfinity"
| "jsMinus (Num a) NegInfinity = PosInfinity"
| "jsMinus PosInfinity PosInfinity = NaN"
| "jsMinus PosInfinity b = PosInfinity"
| "jsMinus NegInfinity NegInfinity = NaN"
| "jsMinus NegInfinity b = NegInfinity"

text \<open>The comparison \<open>a <= b\<close> of two numbers; it is false when one of them is \<open>NaN\<close>.\<close>

fun jsLessEq :: "JsNumber \<Rightarrow> JsNumber \<Rightarrow> bool" where
  "jsLessEq NaN b = False"
| "jsLessEq a NaN = False"
| "jsLessEq (Num a) (Num b) = (a \<le> b)"
| "jsLessEq NegInfinity b = True"
| "jsLessEq a PosInfinity = True"
| "jsLessEq a b = False"

text \<open>
  \<open>Array.prototype.sort(comparefn)\<close>. The sort is stable, and it reads a result
  of the comparator that is \<open>NaN\<close> as \<open>+0\<close>: the two elements count as equal. So
  an element moves behind another exactly when the comparator's result for the
  pair is positive. When the comparator is a consistent order, the sorted array
  is determined (the one stable order), and insertion sort computes it. When it
  is not, the language leaves the order to the engine; the model keeps insertion
  sort.
\<close>

fun isPositive :: "JsNumber \<Rightarrow> bool" where
  "isPositive (Num v) = (0 < v)"
| "isPositive PosInfinity = True"
| "isPositive NegInfinity = False"
| "isPositive NaN = False"

fun insertBy :: "('a \<Rightarrow> 'a \<Rightarrow> JsNumber) \<Rightarrow> 'a \<Rightarrow> 'a list \<Rightarrow> 'a list" where
  "insertBy comparefn x [] = [x]"
| "insertBy comparefn x (y # ys) =
     (if isPositive (comparefn x y) then y # insertBy comparefn x ys else x # y # ys)"

definition arraySort :: "('a \<Rightarrow> 'a \<Rightarrow> JsNumber) \<Rightarrow> 'a list \<Rightarrow> 'a list" where
  "arraySort comparefn xs = foldr (insertBy comparefn) xs []"

text \<open>
  \<open>n + 1\<close> on a counter, an integer that is a double: exact while the sum is
  below \<open>2^53\<close> in size; above, the sum lies half-way between two doubles and
  rounds to the one with the even significand, and from \<open>2^54\<close> on it rounds
  back to \<open>n\<close>.
\<close>

definition plusOne :: "int \<Rightarrow> int" where
  "plusOne n =
     (if - (2 ^ 53) \<le> n \<and> n < 2 ^ 53 then n + 1
      else if \<bar>n\<bar> < 2 ^ 54 then (if n mod 4 = 0 then n else n + 2)
      else n)"

datatype MessageStatus = Sending | Sent | Delivered | Read | Failed

datatype MessageType = TextMessage | FileMessage | ImageMessage | VoiceMessage | SystemMessage

record MessageReaction =
  r_emoji :: string
  r_users :: "string list"
  r_count :: int

record Message =
  m_id :: string
  m_sender :: string
  m_senderUsername :: "string option"
  m_recipient :: string
  m_content :: jsString
  m_encrypted :: "string option"
  m_nonce :: string
  m_timestamp :: JsNumber
  m_fileUrl :: "string option"
  m_fileName :: "string option"
  m_fileSize :: "int option"
  m_fileType :: "string option"
  m_status :: MessageStatus
  m_confirmationTime :: "int option"
  m_replyTo :: "string option"
  m_reactions :: "MessageReaction list option"
  m_edited :: "bool option"
  m_editedAt :: "int option"
  m_threadId :: "string option"
  m_messageType :: MessageType

datatype PeerStatus = Online | Away | Busy | Offline

record Peer =
  p_publicKey :: string
  p_username :: "string option"
  p_nickname :: "string option"
  p_lastSeen :: int
  p_messageCount :: int
  p_isOnline :: "bool option"
  p_avatar :: "string option"
  p_status :: "PeerStatus option"
  p_lastActivity :: "int option"
  p_isTyping :: "bool option"
  p_mutualContacts :: "int option"
  p_trustScore :: "int option"

datatype Theme = Light | Dark | Auto

record NotificationPreferences =
  n_sound :: bool
  n_desktop :: bool
  n_mentions :: bool

record PrivacyPreferences =
  v_showOnlineStatus :: bool
  v_allowDirectMessages :: bool
  v_showReadReceipts :: bool

record ChatPreferences =
  h_enterToSend :: bool
  h_showTimestamps :: bool
  h_compactMode :: bool

record UserPreferences =
  up_theme :: Theme
  up_notifications :: NotificationPreferences
  up_privacy :: PrivacyPreferences
  up_chat :: ChatPreferences

record UserProfile =
  u_publicKey :: string
  u_username :: string
  u_displayName :: "string option"
  u_bio :: "string option"
  u_avatar :: "string option"
  u_updatedAt :: int
  u_peerNicknames :: "(string \<rightharpoonup> string) option"
  u_preferences :: "UserPreferences option"
  u_solanaNameService :: "string option"
  u_verified :: "bool option"
  u_createdAt :: int

datatype ChatType = Direct | Group | Channel

record ChatPermissions =
  cp_canAddMembers :: "string list"
  cp_canRemoveMembers :: "string list"
  cp_canEditInfo :: "string list"
  cp_canDeleteMessages :: "string list"
  cp_isPublic :: bool

record Chat =
  c_id :: string
  c_type :: ChatType
  c_participants :: "string list"
  c_name :: "string option"
  c_description :: "string option"
  c_avatar :: "string option"
  c_createdBy :: string
  c_createdAt :: int
  c_lastMessage :: "Message option"
  c_lastActivity :: JsNumber
  c_unreadCount :: int
  c_isPinned :: bool
  c_isMuted :: bool
  c_isArchived :: bool
  c_permissions :: "ChatPermissions option"

record TypingIndicator =
  t_chatId :: string
  t_userId :: string
  t_username :: string
  t_timestamp :: int

record FileAttachment =
  f_id :: string
  f_name :: string
  f_size :: int
  f_type :: string
  f_url :: string
  f_thumbnail :: "string option"
  f_uploadProgress :: "int option"
  f_encrypted :: bool

section \<open>The chat store (store/chat-store.ts)\<close>

datatype ConnectionStatus = Connected | Disconnected | Reconnecting

record Loading =
  l_messages :: bool
  l_chats :: bool
  l_sendingMessage :: bool
  l_fileUpload :: bool

text \<open>
  The data part of \<open>ChatState\<close>. \<open>Record<string, T>\<close> and \<open>Map<string, T>\<close> are
  partial maps, \<open>Set<string>\<close> is a set. The actions of the interface are the
  functions below, each taking the state and returning the new one, as the
  \<open>set((state) => ...)\<close> updaters do.

  The store is created with the \<open>immer\<close> middleware, and two effects of it on
  the actions are part of the model. An updater function runs on a draft of the
  state, and immer freezes the object the updater returns, with the objects
  inside it. The last field, \<open>encryptionKeysFrozen\<close>, is not a field of the
  source: it records whether the object held in \<open>encryptionKeys\<close> is frozen,
  which decides whether the write of line 375 into that object succeeds.
\<close>

record ChatState =
  currentUser :: "UserProfile option"
  chats :: "Chat list"
  messages :: "string \<rightharpoonup> Message list"
  activeChat :: "string option"
  drafts :: "string \<rightharpoonup> string"
  peers :: "Peer list"
  onlinePeers :: "string set"
  typingIndicators :: "TypingIndicator list"
  blockedUsers :: "string set"
  fileUploads :: "string \<rightharpoonup> FileAttachment"
  mediaGallery :: "string \<rightharpoonup> string list"
  sidebarOpen :: bool
  searchQuery :: string
  selectedMessages :: "string set"
  replyingTo :: "Message option"
  emojiPickerOpen :: bool
  settingsOpen :: bool
  encryptionKeys :: "string \<rightharpoonup> bytes"
  messageQueue :: "Message list"
  connectionStatus :: ConnectionStatus
  loading :: Loading
  messageCache :: "string \<rightharpoonup> Message"
  lastSyncTimestamp :: int
  encryptionKeysFrozen :: bool

text \<open>
  The initial state of the store (lines 109-136). Its \<open>encryptionKeys\<close> is the
  object literal \<open>{}\<close>, which is not frozen.
\<close>

definition initialState :: ChatState where
  "initialState =
     \<lparr> currentUser = None, chats = [], messages = Map.empty, activeChat = None,
       drafts = Map.empty, peers = [], onlinePeers = {}, typingIndicators = [],
       blockedUsers = {}, fileUploads = Map.empty, mediaGallery = Map.empty,
       sidebarOpen = True, searchQuery = [], selectedMessages = {},
       replyingTo = None, emojiPickerOpen = False, settingsOpen = False,
       encryptionKeys = Map.empty, messageQueue = [],
       connectionStatus = Disconnected,
       loading = \<lparr> l_messages = False, l_chats = False,
                   l_sendingMessage = False, l_fileUpload = False \<rparr>,
       messageCache = Map.empty, lastSyncTimestamp = 0,
       encryptionKeysFrozen = False \<rparr>"

definition setCurrentUser :: "UserProfile option \<Rightarrow> ChatState \<Rightarrow> ChatState" where
  "setCurrentUser user state = state\<lparr>currentUser := user\<rparr>"

definition setActiveChat :: "string option \<Rightarrow> ChatState \<Rightarrow> ChatState" where
  "setActiveChat chatId state = state\<lparr>activeChat := chatId\<rparr>"

definition addChat :: "Chat \<Rightarrow> ChatState \<Rightarrow> ChatState" where
  "addChat chat state =
     state\<lparr>chats := chats state @ [chat],
           messages := (messages state)(c_id chat \<mapsto> [])\<rparr>"

text \<open>
  \<open>state.messages[chatId] || []\<close>: the stored list, or the empty list when the chat
  has no entry (an array, even an empty one, is truthy).
\<close>

definition storedMessages :: "ChatState \<Rightarrow> string \<Rightarrow> Message list" where
  "storedMessages state chatId =
     (case messages state chatId of None \<Rightarrow> [] | Some ms \<Rightarrow> ms)"

text \<open>The comparator \<open>(a, b) => a.timestamp - b.timestamp\<close> of lines 170 and 210.\<close>

definition byTimestamp :: "Message \<Rightarrow> Message \<Rightarrow> JsNumber" where
  "byTimestamp a b = jsMinus (m_timestamp a) (m_timestamp b)"

text \<open>
  A list of messages is in ascending order of timestamp when \<open>a.timestamp <=
  b.timestamp\<close> holds for every message \<open>a\<close> and every later message \<open>b\<close>.
\<close>

definition ascendingByTimestamp :: "Message list \<Rightarrow> bool" where
  "ascendingByTimestamp ms =
     sorted_wrt (\<lambda>a b. jsLessEq (m_timestamp a) (m_timestamp b)) ms"

text \<open>\<open>addMessage\<close> (lines 166-189).\<close>

definition addMessage :: "string \<Rightarrow> Message \<Rightarrow> ChatState \<Rightarrow> ChatState" where
  "addMessage chatId message state =
     (let chatMessages = storedMessages state chatId;
          newMessages = (messages state)
            (chatId \<mapsto> arraySort byTimestamp (chatMessages @ [message]));
          updatedChats = map (\<lambda>chat.
            if c_id chat = chatId
            then chat\<lparr>c_lastMessage := Some message,
                      c_lastActivity := m_timestamp message,
                      c_unreadCount :=
                        (if Some (c_id chat) = activeChat state then 0
                         else plusOne (c_unreadCount chat))\<rparr>
            else chat) (chats state)
      in state\<lparr>messages := newMessages, chats := updatedChats\<rparr>)"

text \<open>
  \<open>Partial<Message>\<close>: every field may be absent (\<open>None\<close>). A field that is
  optional in \<open>Message\<close> can also be present with the value \<open>undefined\<close>
  (\<open>Some None\<close>), which the spread \<open>{ ...msg, ...updates }\<close> copies like any
  other value.
\<close>

record MessageUpdates =
  mu_id :: "string option"
  mu_sender :: "string option"
  mu_senderUsername :: "string option option"
  mu_recipient :: "string option"
  mu_content :: "jsString option"
  mu_encrypted :: "string option option"
  mu_nonce :: "string option"
  mu_timestamp :: "JsNumber option"
  mu_fileUrl :: "string option option"
  mu_fileName :: "string option option"
  mu_fileSize :: "int option option"
  mu_fileType :: "string option option"
  mu_status :: "MessageStatus option"
  mu_confirmationTime :: "int option option"
  mu_replyTo :: "string option option"
  mu_reactions :: "MessageReaction list option option"
  mu_edited :: "bool option option"
  mu_editedAt :: "int option option"
  mu_threadId :: "string option option"
  mu_messageType :: "MessageType option"

definition noUpdates :: MessageUpdates where
  "noUpdates =
     \<lparr> mu_id = None, mu_sender = None, mu_senderUsername = None,
       mu_recipient = None, mu_content = None, mu_encrypted = None,
       mu_nonce = None, mu_timestamp = None, mu_fileUrl = None,
       mu_fileName = None, mu_fileSize = None, mu_fileType = None,
       mu_status = None, mu_confirmationTime = None, mu_replyTo = None,
       mu_reactions = None, mu_edited = None, mu_editedAt = None,
       mu_threadId = None, mu_messageType = None \<rparr>"

definition override :: "'a option \<Rightarrow> 'a \<Rightarrow> 'a" where
  "override u old = (case u of None \<Rightarrow> old | Some v \<Rightarrow> v)"

text \<open>The spread \<open>{ ...msg, ...updates }\<close>.\<close>

definition spreadMessage :: "Message \<Rightarrow> MessageUpdates \<Rightarrow> Message" where
  "spreadMessage msg updates =
     \<lparr> m_id = override (mu_id updates) (m_id msg),
       m_sender = override (mu_sender updates) (m_sender msg),
       m_senderUsername = override (mu_senderUsername updates) (m_senderUsername msg),
       m_recipient = override (mu_recipient updates) (m_recipient msg),
       m_content = override (mu_content updates) (m_content msg),
       m_encrypted = override (mu_encrypted updates) (m_encrypted msg),
       m_nonce = override (mu_nonce updates) (m_nonce msg),
       m_timestamp = override (mu_timestamp updates) (m_timestamp msg),
       m_fileUrl = override (mu_fileUrl updates) (m_fileUrl msg),
       m_fileName = override (mu_fileName updates) (m_fileName msg),
       m_fileSize = override (mu_fileSize updates) (m_fileSize msg),
       m_fileType = override (mu_fileType updates) (m_fileType msg),
       m_status = override (mu_status updates) (m_status msg),
       m_confirmationTime = override (mu_confirmationTime updates) (m_confirmationTime msg),
       m_replyTo = override (mu_replyTo updates) (m_replyTo msg),
       m_reactions = override (mu_reactions updates) (m_reactions msg),
       m_edited = override (mu_edited updates) (m_edited msg),
       m_editedAt = override (mu_editedAt updates) (m_editedAt msg),
       m_threadId = override (mu_threadId updates) (m_threadId msg),
       m_messageType = override (mu_messageType updates) (m_messageType msg) \<rparr>"

text \<open>\<open>updateMessage\<close> (lines 191-198) and \<open>removeMessage\<close> (lines 200-205).\<close>

definition updateMessage ::
  "string \<Rightarrow> string \<Rightarrow> MessageUpdates \<Rightarrow> ChatState \<Rightarrow> ChatState" where
  "updateMessage chatId messageId updates state =
     state\<lparr>messages := (messages state)
       (chatId \<mapsto> map (\<lambda>msg. if m_id msg = messageId
                               then spreadMessage msg updates else msg)
                    (storedMessages state chatId))\<rparr>"

definition removeMessage :: "string \<Rightarrow> string \<Rightarrow> ChatState \<Rightarrow> ChatState" where
  "removeMessage chatId messageId state =
     state\<lparr>messages := (messages state)
       (chatId \<mapsto> filter (\<lambda>msg. m_id msg \<noteq> messageId)
                    (storedMessages state chatId))\<rparr>"

text \<open>
  \<open>Array.prototype.findIndex\<close>: the index of the first element satisfying the
  predicate, \<open>None\<close> for the source's \<open>-1\<close>.
\<close>

fun findIndex :: "('a \<Rightarrow> bool) \<Rightarrow> 'a list \<Rightarrow> nat option" where
  "findIndex P [] = None"
| "findIndex P (x # xs) = (if P x then Some 0 else map_option Suc (findIndex P xs))"

text \<open>
  A \<open>Peer\<close> object as the caller of \<open>addPeer\<close> builds it. For the spread
  \<open>{ ...old, ...peer }\<close> it matters which keys the object has: an optional key
  is absent (\<open>None\<close>) or present, and a present key may hold \<open>undefined\<close>
  (\<open>Some None\<close>), which the spread copies over the old value like any other.
\<close>

record PeerObject =
  po_publicKey :: string
  po_username :: "string option option"
  po_nickname :: "string option option"
  po_lastSeen :: int
  po_messageCount :: int
  po_isOnline :: "bool option option"
  po_avatar :: "string option option"
  po_status :: "PeerStatus option option"
  po_lastActivity :: "int option option"
  po_isTyping :: "bool option option"
  po_mutualContacts :: "int option option"
  po_trustScore :: "int option option"

text \<open>The object read as a \<open>Peer\<close>: an absent key reads as \<open>undefined\<close>.\<close>

definition peerOf :: "PeerObject \<Rightarrow> Peer" where
  "peerOf peer =
     \<lparr> p_publicKey = po_publicKey peer,
       p_username = override (po_username peer) None,
       p_nickname = override (po_nickname peer) None,
       p_lastSeen = po_lastSeen peer,
       p_messageCount = po_messageCount peer,
       p_isOnline = override (po_isOnline peer) None,
       p_avatar = override (po_avatar peer) None,
       p_status = override (po_status peer) None,
       p_lastActivity = override (po_lastActivity peer) None,
       p_isTyping = override (po_isTyping peer) None,
       p_mutualContacts = override (po_mutualContacts peer) None,
       p_trustScore = override (po_trustScore peer) None \<rparr>"

text \<open>The spread \<open>{ ...old, ...peer }\<close>.\<close>

definition spreadPeer :: "Peer \<Rightarrow> PeerObject \<Rightarrow> Peer" where
  "spreadPeer old peer =
     \<lparr> p_publicKey = po_publicKey peer,
       p_username = override (po_username peer) (p_username old),
       p_nickname = override (po_nickname peer) (p_nickname old),
       p_lastSeen = po_lastSeen peer,
       p_messageCount = po_messageCount peer,
       p_isOnline = override (po_isOnline peer) (p_isOnline old),
       p_avatar = override (po_avatar peer) (p_avatar old),
       p_status = override (po_status peer) (p_status old),
       p_lastActivity = override (po_lastActivity peer) (p_lastActivity old),
       p_isTyping = override (po_isTyping peer) (p_isTyping old),
       p_mutualContacts = override (po_mutualContacts peer) (p_mutualContacts old),
       p_trustScore = override (po_trustScore peer) (p_trustScore old) \<rparr>"

text \<open>\<open>addPeer\<close> (lines 215-223).\<close>

definition addPeer :: "PeerObject \<Rightarrow> ChatState \<Rightarrow> ChatState" where
  "addPeer peer state =
     (case findIndex (\<lambda>p. p_publicKey p = po_publicKey peer) (peers state) of
        Some existingIndex \<Rightarrow>
          state\<lparr>peers := (peers state)
            [existingIndex := spreadPeer (peers state ! existingIndex) peer]\<rparr>
      | None \<Rightarrow> state\<lparr>peers := peers state @ [peerOf peer]\<rparr>)"

text \<open>
  Reading a field of the draft that holds a \<open>Set\<close>. Immer makes the draft of a
  \<open>Set\<close> or a \<open>Map\<close> through its MapSet plug-in, and throws when the plug-in is
  not loaded. The repository never loads it (there is no call of
  \<open>enableMapSet\<close>), so the read throws.
\<close>

datatype StoreError = MapSetPluginNotLoaded

definition draftSet :: "'a set \<Rightarrow> StoreError + 'a set" where
  "draftSet S = Inl MapSetPluginNotLoaded"

text \<open>
  \<open>blockUser\<close> and \<open>unblockUser\<close> (lines 461-469). Both updaters read
  \<open>state.blockedUsers\<close> on the draft before they build the new set. When the read
  throws, the exception leaves the action and \<open>set\<close> never stores anything (the
  result \<open>Inl\<close>: the store keeps its state).
\<close>

definition blockUser :: "string \<Rightarrow> ChatState \<Rightarrow> StoreError + ChatState" where
  "blockUser userId state =
     (case draftSet (blockedUsers state) of
        Inl err \<Rightarrow> Inl err
      | Inr blocked \<Rightarrow> Inr (state\<lparr>blockedUsers := insert userId blocked\<rparr>))"

definition unblockUser :: "string \<Rightarrow> ChatState \<Rightarrow> StoreError + ChatState" where
  "unblockUser userId state =
     (case draftSet (blockedUsers state) of
        Inl err \<Rightarrow> Inl err
      | Inr blocked \<Rightarrow> Inr (state\<lparr>blockedUsers := blocked - {userId}\<rparr>))"

text \<open>
  \<open>generateSharedKey\<close> (lines 488-496). \<open>sharedKey\<close> is the 32 bytes that
  \<open>crypto.getRandomValues\<close> draws; \<open>theirPublicKey\<close> is not used by the body. The
  updater returns a new \<open>encryptionKeys\<close> object, which immer freezes.
\<close>

definition generateSharedKey :: "bytes \<Rightarrow> string \<Rightarrow> bytes \<Rightarrow> ChatState \<Rightarrow> ChatState" where
  "generateSharedKey sharedKey userId theirPublicKey state =
     state\<lparr>encryptionKeys := (encryptionKeys state)(userId \<mapsto> sharedKey),
           encryptionKeysFrozen := True\<rparr>"

subsection \<open>Inbound routing (the \<open>onMessage\<close> handler of \<open>initializeRealtime\<close>)\<close>

text \<open>
  Lines 314-315: \<open>[selfId, senderId].sort()\<close> and the template string built from
  it. The default \<open>sort\<close> orders strings by their code units, lexicographically;
  on \<open>char list\<close> that is the order of \<open>List_Lexorder\<close> over \<open>Char_ord\<close>.
\<close>

definition inboundChatId :: "string \<Rightarrow> string \<Rightarrow> string" where
  "inboundChatId selfId senderId =
     (let participants = sort [selfId, senderId]
      in ''direct_'' @ participants ! 0 @ ''_'' @ participants ! 1)"

text \<open>
  The handler registered with \<open>realtimeService.onMessage\<close> (lines 300-349).
  \<open>user\<close> is the \<open>currentUser\<close> profile captured when \<open>initializeRealtime\<close> ran; \<open>now1\<close>,
  \<open>now2\<close>, \<open>now3\<close> are the values of the three \<open>Date.now()\<close> calls. \<open>state\<close> is the
  snapshot \<open>get()\<close> taken on entry: the lookups read it, while \<open>addChat\<close>,
  \<open>addPeer\<close> and \<open>addMessage\<close> each update the store in turn.
\<close>

definition onMessage ::
  "UserProfile \<Rightarrow> int \<Rightarrow> int \<Rightarrow> int \<Rightarrow> Message \<Rightarrow> ChatState \<Rightarrow> ChatState" where
  "onMessage user now1 now2 now3 incoming state =
     (let senderId = m_sender incoming;
          selfId = u_publicKey user
      in case find (\<lambda>c. c_type c = Direct
                        \<and> selfId \<in> set (c_participants c)
                        \<and> senderId \<in> set (c_participants c)) (chats state) of
           Some chat \<Rightarrow> addMessage (c_id chat) incoming state
         | None \<Rightarrow>
             (let chatId = inboundChatId selfId senderId;
                  newChat = \<lparr> c_id = chatId, c_type = Direct,
                              c_participants = [selfId, senderId],
                              c_name = None, c_description = None, c_avatar = None,
                              c_createdBy = senderId, c_createdAt = now1,
                              c_lastMessage = None, c_lastActivity = Num (of_int now2),
                              c_unreadCount = 0, c_isPinned = False,
                              c_isMuted = False, c_isArchived = False,
                              c_permissions = None \<rparr>;
                  s1 = addChat newChat state;
                  s2 = (case find (\<lambda>p. p_publicKey p = senderId) (peers state) of
                          Some existingPeer \<Rightarrow> s1
                        | None \<Rightarrow>
                            addPeer \<lparr> po_publicKey = senderId,
                                      po_username = Some (m_senderUsername incoming),
                                      po_nickname = None, po_lastSeen = now3,
                                      po_messageCount = 0,
                                      po_isOnline = Some (Some True),
                                      po_avatar = None,
                                      po_status = Some (Some Online),
                                      po_lastActivity = None, po_isTyping = None,
                                      po_mutualContacts = None,
                                      po_trustScore = None \<rparr> s1)
              in addMessage (c_id newChat) incoming s2))"

subsection \<open>Explicit chat creation (\<open>createDirectChat\<close> of the application component)\<close>

text \<open>Lines 613-614 of the component: the id the chat is expected to have.\<close>

definition expectedChatId :: "string \<Rightarrow> string \<Rightarrow> string" where
  "expectedChatId publicKey peerPublicKey =
     (let sortedParticipants = sort [publicKey, peerPublicKey]
      in ''direct_'' @ sortedParticipants ! 0 @ ''_'' @ sortedParticipants ! 1)"

text \<open>
  \<open>createDirectChat\<close> (lines 611-661). \<open>publicKey\<close> is the wallet key of the local
  user as a string; the result is the returned chat id and the new store state.
\<close>

definition createDirectChat ::
  "string \<Rightarrow> int \<Rightarrow> int \<Rightarrow> int \<Rightarrow> string \<Rightarrow> string option \<Rightarrow> ChatState
     \<Rightarrow> string \<times> ChatState" where
  "createDirectChat publicKey now1 now2 now3 peerPublicKey peerUsername state =
     (let expected = expectedChatId publicKey peerPublicKey
      in case find (\<lambda>chat. c_id chat = expected
                     \<or> (c_type chat = Direct
                        \<and> peerPublicKey \<in> set (c_participants chat)
                        \<and> publicKey \<in> set (c_participants chat))) (chats state) of
           Some existingChat \<Rightarrow>
             (c_id existingChat, setActiveChat (Some (c_id existingChat)) state)
         | None \<Rightarrow>
             (let chatId = expected;
                  newChat = \<lparr> c_id = chatId, c_type = Direct,
                              c_participants = [publicKey, peerPublicKey],
                              c_name = None, c_description = None, c_avatar = None,
                              c_createdBy = publicKey, c_createdAt = now1,
                              c_lastMessage = None, c_lastActivity = Num (of_int now2),
                              c_unreadCount = 0, c_isPinned = False,
                              c_isMuted = False, c_isArchived = False,
                              c_permissions = None \<rparr>;
                  s1 = setActiveChat (Some chatId) (addChat newChat state);
                  s2 = (case find (\<lambda>p. p_publicKey p = peerPublicKey) (peers state) of
                          Some existingPeer \<Rightarrow> s1
                        | None \<Rightarrow>
                            addPeer \<lparr> po_publicKey = peerPublicKey,
                                      po_username = Some peerUsername,
                                      po_nickname = None, po_lastSeen = now3,
                                      po_messageCount = 0,
                                      po_isOnline = Some (Some False),
                                      po_avatar = None,
                                      po_status = Some (Some Offline),
                                      po_lastActivity = None, po_isTyping = None,
                                      po_mutualContacts = None,
                                      po_trustScore = None \<rparr> s1)
              in (chatId, s2)))"

subsection \<open>The persisted snapshot (\<open>partialize\<close>, lines 503-511)\<close>

record PersistedState =
  ps_currentUser :: "UserProfile option"
  ps_chats :: "Chat list"
  ps_messages :: "string \<rightharpoonup> Message list"
  ps_peers :: "Peer list"
  ps_drafts :: "string \<rightharpoonup> string"
  ps_encryptionKeys :: "string \<rightharpoonup> bytes"
  ps_lastSyncTimestamp :: int

definition partialize :: "ChatState \<Rightarrow> PersistedState" where
  "partialize state =
     \<lparr> ps_currentUser = currentUser state,
       ps_chats = chats state,
       ps_messages = messages state,
       ps_peers = peers state,
       ps_drafts = drafts state,
       ps_encryptionKeys = Map.empty,
       ps_lastSyncTimestamp = lastSyncTimestamp state \<rparr>"

section \<open>Symmetric encryption (lib/advanced-crypto.ts)\<close>

text \<open>
  \<open>encryptWithSharedSecret\<close> and \<open>decryptWithSharedSecret\<close> call three packages
  that are not part of the repository: \<open>tweetnacl\<close> (\<open>secretbox\<close>,
  \<open>secretbox.open\<close>, \<open>randomBytes\<close>), \<open>bs58\<close> and \<open>@stablelib/utf8\<close>. Their
  functions are parameters of the model, collected in a record. A call that
  throws has the result \<open>None\<close>; \<open>secretbox.open\<close> also has the result \<open>None\<close>
  when it returns its failure value (the authentication tag does not verify).
  The bytes drawn by \<open>randomBytes(secretbox.nonceLength)\<close> are the parameter
  \<open>nonce\<close> of the encryption.
\<close>

record CryptoLib =
  encodeUTF8 :: "jsString \<Rightarrow> bytes option"
  decodeUTF8 :: "bytes \<Rightarrow> jsString option"
  encodeBase58 :: "bytes \<Rightarrow> string"
  decodeBase58 :: "string \<Rightarrow> bytes option"
  secretbox :: "bytes \<Rightarrow> bytes \<Rightarrow> bytes \<Rightarrow> bytes option"
  secretbox_open :: "bytes \<Rightarrow> bytes \<Rightarrow> bytes \<Rightarrow> bytes option"

datatype Algorithm = NaclBox | NaclSecretbox | AesGcm

record EncryptedData =
  e_encrypted :: string
  e_nonce :: string
  e_ephemeralPublicKey :: "string option"
  e_signature :: "string option"
  e_algorithm :: Algorithm
  e_version :: string

definition VERSION :: string where
  "VERSION = ''2.0''"

datatype CryptoError = LibraryException | EncryptionFailed

text \<open>
  \<open>encryptWithSharedSecret\<close> (lines 322-340). The body has no \<open>try\<close>: an
  exception of \<open>encodeUTF8\<close> (the encoder throws on a string that is not
  well-formed UTF-16, such as one with a lone surrogate) or of \<open>secretbox\<close>
  leaves the function, and a falsy result of \<open>secretbox\<close> raises
  \<open>Error('Encryption with shared secret failed')\<close>. The last two are the result
  \<open>None\<close> of the \<open>secretbox\<close> parameter, so \<open>EncryptionFailed\<close> stands for either.
\<close>

definition encryptWithSharedSecret ::
  "CryptoLib \<Rightarrow> bytes \<Rightarrow> jsString \<Rightarrow> bytes \<Rightarrow> CryptoError + EncryptedData" where
  "encryptWithSharedSecret lib nonce message sharedSecret =
     (case encodeUTF8 lib message of
        None \<Rightarrow> Inl LibraryException
      | Some messageBytes \<Rightarrow>
          (case secretbox lib messageBytes nonce sharedSecret of
             None \<Rightarrow> Inl EncryptionFailed
           | Some encrypted \<Rightarrow>
               Inr \<lparr> e_encrypted = encodeBase58 lib encrypted,
                     e_nonce = encodeBase58 lib nonce,
                     e_ephemeralPublicKey = None,
                     e_signature = None,
                     e_algorithm = NaclSecretbox,
                     e_version = VERSION \<rparr>))"

text \<open>
  \<open>decryptWithSharedSecret\<close> (lines 345-364). The whole body is inside
  \<open>try { ... } catch { return null }\<close>, so every exception of a library call and
  the failure value of \<open>secretbox.open\<close> end in the result \<open>null\<close>, here \<open>None\<close>.
\<close>

definition decryptWithSharedSecret ::
  "CryptoLib \<Rightarrow> EncryptedData \<Rightarrow> bytes \<Rightarrow> jsString option" where
  "decryptWithSharedSecret lib encryptedData sharedSecret =
     (case decodeBase58 lib (e_encrypted encryptedData) of
        None \<Rightarrow> None
      | Some encryptedBytes \<Rightarrow>
          (case decodeBase58 lib (e_nonce encryptedData) of
             None \<Rightarrow> None
           | Some nonceBytes \<Rightarrow>
               (case secretbox_open lib encryptedBytes nonceBytes sharedSecret of
                  None \<Rightarrow> None
                | Some decrypted \<Rightarrow> decodeUTF8 lib decrypted)))"

text \<open>
  A small stand-in library for evaluating the model on concrete inputs. Its
  text codec handles ASCII, one byte per code unit, and rejects every other
  string; a string with a lone surrogate is among those, and that one
  \<open>@stablelib/utf8\<close> rejects as well. Its base-58 codec writes one character per
  byte. Its box prefixes the message with the key and the nonce and accepts
  only 32-byte keys and 24-byte nonces, as \<open>tweetnacl\<close> does.
\<close>

definition byteOfChar :: "char \<Rightarrow> byte" where
  "byteOfChar c = of_nat (of_char c)"

definition charOfByte :: "byte \<Rightarrow> char" where
  "charOfByte b = char_of (unat b)"

definition standInLib :: CryptoLib where
  "standInLib =
     \<lparr> encodeUTF8 = (\<lambda>s.
         if list_all (\<lambda>u. u < 0x80) s then Some (map ucast s) else None),
       decodeUTF8 = (\<lambda>bs.
         if list_all (\<lambda>b. b < 0x80) bs then Some (map ucast bs) else None),
       encodeBase58 = (\<lambda>bs. map charOfByte bs),
       decodeBase58 = (\<lambda>s. Some (map byteOfChar s)),
       secretbox = (\<lambda>m n k.
         if length k = 32 \<and> length n = 24 then Some (k @ n @ m) else None),
       secretbox_open = (\<lambda>c n k.
         if length k = 32 \<and> length n = 24 \<and> take 56 c = k @ n
         then Some (drop 56 c) else None) \<rparr>"

subsection \<open>\<open>sendEncryptedMessage\<close> (store/chat-store.ts, lines 361-417)\<close>

datatype TransportError = SendRejected

datatype SendError =
    NoCurrentUser
  | FrozenObjectWrite
  | CryptoFailure CryptoError
  | TransportFailure TransportError

definition setSendingMessage :: "bool \<Rightarrow> ChatState \<Rightarrow> ChatState" where
  "setSendingMessage b state =
     state\<lparr>loading := (loading state)\<lparr>l_sendingMessage := b\<rparr>\<rparr>"

text \<open>Lines 371-376: the cached key of the recipient, or the mock key of 32 zero bytes.\<close>

definition sharedKeyFor :: "ChatState \<Rightarrow> string \<Rightarrow> bytes" where
  "sharedKeyFor state recipientKey =
     (case encryptionKeys state recipientKey of
        Some key \<Rightarrow> key
      | None \<Rightarrow> replicate 32 0)"

text \<open>Lines 381-392: the message object. \<open>now\<close> is the value of \<open>Date.now()\<close>.\<close>

definition outgoingMessage ::
  "UserProfile \<Rightarrow> string \<Rightarrow> int \<Rightarrow> jsString \<Rightarrow> string \<Rightarrow> EncryptedData \<Rightarrow> Message" where
  "outgoingMessage user newId now content recipientKey encryptedData =
     \<lparr> m_id = newId,
       m_sender = u_publicKey user,
       m_senderUsername = Some (u_username user),
       m_recipient = recipientKey,
       m_content = content,
       m_encrypted = Some (e_encrypted encryptedData),
       m_nonce = e_nonce encryptedData,
       m_timestamp = Num (of_int now),
       m_fileUrl = None, m_fileName = None, m_fileSize = None, m_fileType = None,
       m_status = Sending,
       m_confirmationTime = None, m_replyTo = None, m_reactions = None,
       m_edited = None, m_editedAt = None, m_threadId = None,
       m_messageType = TextMessage \<rparr>"

text \<open>
  The asynchronous function as one pass over the store. \<open>lib\<close> and \<open>nonce\<close> are
  the parameters of the encryption, \<open>newId\<close> is the value of
  \<open>AdvancedCrypto.generateSecureId()\<close>, \<open>now\<close> that of \<open>Date.now()\<close>, and
  \<open>transport\<close> is what \<open>await realtimeService.sendMessage(...)\<close> gives: a
  rejection, or the message id with which the transport acknowledges the send.
  The result is the error the returned promise rejects with (\<open>None\<close> when it
  resolves) and the store state left behind; the \<open>finally\<close> block runs on every
  path inside the \<open>try\<close>.

  When the recipient has no cached key, line 375 writes the mock key into the
  \<open>encryptionKeys\<close> object of the snapshot \<open>get()\<close>, which is the object the store
  holds. The write is an assignment to a property the object does not have:
  on a frozen object it throws a \<open>TypeError\<close> (the module is strict code), inside
  the \<open>try\<close> and before the message is built.
\<close>

definition sendEncryptedMessage ::
  "CryptoLib \<Rightarrow> bytes \<Rightarrow> string \<Rightarrow> int \<Rightarrow> TransportError + string
     \<Rightarrow> string \<Rightarrow> jsString \<Rightarrow> string \<Rightarrow> ChatState \<Rightarrow> SendError option \<times> ChatState" where
  "sendEncryptedMessage lib nonce newId now transport chatId content recipientKey state =
     (case currentUser state of
        None \<Rightarrow> (Some NoCurrentUser, state)
      | Some user \<Rightarrow>
          (let s1 = setSendingMessage True state;
               sharedKey = sharedKeyFor state recipientKey
           in if encryptionKeys state recipientKey = None \<and> encryptionKeysFrozen state
              then (Some FrozenObjectWrite, setSendingMessage False s1)
              else
               (let s2 = (case encryptionKeys state recipientKey of
                            Some key \<Rightarrow> s1
                          | None \<Rightarrow>
                              s1\<lparr>encryptionKeys :=
                                   (encryptionKeys s1)(recipientKey \<mapsto> sharedKey)\<rparr>)
                in case encryptWithSharedSecret lib nonce content sharedKey of
                     Inl err \<Rightarrow> (Some (CryptoFailure err), setSendingMessage False s2)
                   | Inr encryptedData \<Rightarrow>
                       (let message = outgoingMessage user newId now content
                                        recipientKey encryptedData;
                            s3 = addMessage chatId message s2
                        in case transport of
                             Inl err \<Rightarrow>
                               (Some (TransportFailure err), setSendingMessage False s3)
                           | Inr messageId \<Rightarrow>
                               (None,
                                setSendingMessage False
                                  (updateMessage chatId (m_id message)
                                     (noUpdates\<lparr>mu_status := Some Sent\<rparr>) s3))))))"

section \<open>The transport client (lib/realtime-communication.ts)\<close>

datatype RealtimeMessageType =
  RtMessage | RtTyping | RtPresence | RtDeliveryReceipt | RtReadReceipt

record FileData =
  fd_url :: string
  fd_name :: string
  fd_size :: int
  fd_type :: string

text \<open>The \<open>data\<close> object that \<open>sendMessage\<close> builds (lines 147-154).\<close>

record MessageData =
  md_messageId :: string
  md_content :: jsString
  md_senderUsername :: "string option"
  md_messageType :: MessageType
  md_fileData :: "FileData option"
  md_timestamp :: int

text \<open>
  \<open>RealtimeMessage\<close>. \<open>from\<close> is \<open>this.currentUser!\<close>, which is \<open>null\<close> before the
  first \<open>connect\<close>; the assertion is not checked at run time. \<open>data\<close> has the
  type \<open>any\<close> in the source; only the envelopes built by \<open>sendMessage\<close> are
  modelled, so it is the \<open>data\<close> object of that function.
\<close>

record RealtimeMessage =
  rm_id :: string
  rm_type :: RealtimeMessageType
  rm_from :: "string option"
  rm_to :: string
  rm_data :: MessageData
  rm_timestamp :: int
  rm_signature :: "string option"

text \<open>
  The socket of \<open>socket.io-client\<close>, as far as the service uses it: its
  \<open>connected\<close> flag and the events passed to \<open>emit\<close>, in order.
\<close>

datatype Emission = RegisterEvent "string option" | MessageEvent RealtimeMessage

record Socket =
  sk_connected :: bool
  sk_emitted :: "Emission list"

text \<open>
  The fields of \<open>RealtimeService\<close>. \<open>rs_heartbeatInterval\<close> holds the period of the
  interval timer when one is set; \<open>rs_statusChanges\<close> records the calls of the
  \<open>onConnectionStatusChange\<close> handler.
\<close>

record RealtimeService =
  rs_socket :: "Socket option"
  rs_currentUser :: "string option"
  rs_messageQueue :: "RealtimeMessage list"
  rs_reconnectAttempts :: nat
  rs_maxReconnectAttempts :: nat
  rs_heartbeatInterval :: "nat option"
  rs_statusChanges :: "ConnectionStatus list"

definition newRealtimeService :: RealtimeService where
  "newRealtimeService =
     \<lparr> rs_socket = None, rs_currentUser = None, rs_messageQueue = [],
       rs_reconnectAttempts = 0, rs_maxReconnectAttempts = 5,
       rs_heartbeatInterval = None, rs_statusChanges = [] \<rparr>"

definition isConnected :: "RealtimeService \<Rightarrow> bool" where
  "isConnected s = (case rs_socket s of None \<Rightarrow> False | Some sk \<Rightarrow> sk_connected sk)"

definition sendRealtimeMessage :: "RealtimeMessage \<Rightarrow> RealtimeService \<Rightarrow> RealtimeService" where
  "sendRealtimeMessage message s =
     (case rs_socket s of
        None \<Rightarrow> s
      | Some sk \<Rightarrow>
          s\<lparr>rs_socket := Some (sk\<lparr>sk_emitted := sk_emitted sk @ [MessageEvent message]\<rparr>)\<rparr>)"

text \<open>
  Lines 142-156: the envelope that \<open>sendMessage\<close> builds. \<open>messageId\<close> is the
  value of \<open>nanoid()\<close>, \<open>now1\<close> and \<open>now2\<close> those of the two \<open>Date.now()\<close> calls.
\<close>

definition realtimeMessageOf ::
  "string \<Rightarrow> int \<Rightarrow> int \<Rightarrow> jsString \<Rightarrow> string \<Rightarrow> MessageType
     \<Rightarrow> FileData option \<Rightarrow> string option \<Rightarrow> RealtimeService \<Rightarrow> RealtimeMessage" where
  "realtimeMessageOf messageId now1 now2 content recipientPublicKey messageType
       fileData senderUsername s =
     \<lparr> rm_id = messageId, rm_type = RtMessage,
       rm_from = rs_currentUser s, rm_to = recipientPublicKey,
       rm_data = \<lparr> md_messageId = messageId, md_content = content,
                   md_senderUsername = senderUsername,
                   md_messageType = messageType, md_fileData = fileData,
                   md_timestamp = now1 \<rparr>,
       rm_timestamp = now2, rm_signature = None \<rparr>"

text \<open>
  \<open>sendMessage\<close> (lines 131-170). The result is the returned id and the service
  afterwards; \<open>senderPrivateKey\<close> is not used by the body.
\<close>

definition sendMessage ::
  "string \<Rightarrow> int \<Rightarrow> int \<Rightarrow> jsString \<Rightarrow> string \<Rightarrow> bytes \<Rightarrow> MessageType
     \<Rightarrow> FileData option \<Rightarrow> string option \<Rightarrow> RealtimeService
     \<Rightarrow> string \<times> RealtimeService" where
  "sendMessage messageId now1 now2 content recipientPublicKey senderPrivateKey
       messageType fileData senderUsername s =
     (let realtimeMessage =
            realtimeMessageOf messageId now1 now2 content recipientPublicKey
              messageType fileData senderUsername s
      in if isConnected s
         then (messageId, sendRealtimeMessage realtimeMessage s)
         else (messageId,
               s\<lparr>rs_messageQueue := rs_messageQueue s @ [realtimeMessage]\<rparr>))"

text \<open>
  \<open>processMessageQueue\<close> (lines 286-293): the \<open>while\<close> loop takes the head of
  the queue with \<open>shift()\<close> and sends it, until the queue is empty. A queued
  message is an object, so the test \<open>if (message)\<close> always succeeds.
\<close>

function processMessageQueue :: "RealtimeService \<Rightarrow> RealtimeService" where
  "processMessageQueue s =
     (case rs_messageQueue s of
        [] \<Rightarrow> s
      | message # rest \<Rightarrow>
          processMessageQueue (sendRealtimeMessage message (s\<lparr>rs_messageQueue := rest\<rparr>)))"
  by pat_completeness auto
termination
  by (relation "measure (\<lambda>s. length (rs_messageQueue s))")
     (auto simp: sendRealtimeMessage_def split: option.splits)

declare processMessageQueue.simps [simp del]

definition startHeartbeat :: "RealtimeService \<Rightarrow> RealtimeService" where
  "startHeartbeat s = s\<lparr>rs_heartbeatInterval := Some 30000\<rparr>"

text \<open>The handler of the socket's \<open>connect\<close> event (lines 68-73).\<close>

definition onConnect :: "RealtimeService \<Rightarrow> RealtimeService" where
  "onConnect s =
     (let s1 = s\<lparr>rs_statusChanges := rs_statusChanges s @ [Connected]\<rparr>;
          s2 = (case rs_socket s1 of
                  None \<Rightarrow> s1
                | Some sk \<Rightarrow>
                    s1\<lparr>rs_socket := Some (sk\<lparr>sk_emitted :=
                         sk_emitted sk @ [RegisterEvent (rs_currentUser s1)]\<rparr>)\<rparr>)
      in processMessageQueue (startHeartbeat s2))"

text \<open>
  Line 306: \<open>Math.min(1000 * Math.pow(2, this.reconnectAttempts), 30000)\<close>, as a
  function of the attempt counter.
\<close>

definition reconnectDelay :: "nat \<Rightarrow> nat" where
  "reconnectDelay attempts = min (1000 * 2 ^ attempts) 30000"

text \<open>
  \<open>scheduleReconnect\<close> (lines 303-313): the service afterwards and the delay of
  the timer it sets, \<open>None\<close> when it sets none.
\<close>

definition scheduleReconnect :: "RealtimeService \<Rightarrow> RealtimeService \<times> nat option" where
  "scheduleReconnect s =
     (if rs_reconnectAttempts s < rs_maxReconnectAttempts s
      then (let s' = s\<lparr>rs_reconnectAttempts := rs_reconnectAttempts s + 1\<rparr>
            in (s', Some (reconnectDelay (rs_reconnectAttempts s'))))
      else (s, None))"

section \<open>Sample values\<close>

text \<open>Concrete inputs on which the theorems below are evaluated.\<close>

definition alice :: UserProfile where
  "alice =
     \<lparr> u_publicKey = ''alice'', u_username = ''alice'', u_displayName = None,
       u_bio = None, u_avatar = None, u_updatedAt = 0, u_peerNicknames = None,
       u_preferences = None, u_solanaNameService = None, u_verified = None,
       u_createdAt = 0 \<rparr>"

text \<open>A message as the socket handler builds it (lines 85-95), here sent to alice.\<close>

definition incomingFrom :: "string \<Rightarrow> string \<Rightarrow> JsNumber \<Rightarrow> Message" where
  "incomingFrom sender messageId timestamp =
     \<lparr> m_id = messageId, m_sender = sender, m_senderUsername = None,
       m_recipient = ''alice'', m_content = utf16 ''hi'', m_encrypted = None,
       m_nonce = [], m_timestamp = timestamp,
       m_fileUrl = None, m_fileName = None, m_fileSize = None, m_fileType = None,
       m_status = Delivered,
       m_confirmationTime = None, m_replyTo = None, m_reactions = None,
       m_edited = None, m_editedAt = None, m_threadId = None,
       m_messageType = TextMessage \<rparr>"

definition aliceStore :: ChatState where
  "aliceStore = setCurrentUser (Some alice) initialState"


text \<open>Alice's store after \<open>generateSharedKey\<close> for ''carol''.\<close>

definition aliceWithCarolKey :: ChatState where
  "aliceWithCarolKey = generateSharedKey (replicate 32 9) ''carol'' [] aliceStore"

text \<open>A string that is one lone surrogate, the code unit \<open>0xD800\<close>.\<close>

definition loneSurrogate :: jsString where
  "loneSurrogate = [0xD800]"

text \<open>A service after \<open>connect(''alice'')\<close> whose socket has not connected yet.\<close>

definition offlineService :: RealtimeService where
  "offlineService =
     newRealtimeService
       \<lparr> rs_socket := Some \<lparr> sk_connected = False, sk_emitted = [] \<rparr>,
         rs_currentUser := Some ''alice'' \<rparr>"

definition helloEnvelope :: RealtimeMessage where
  "helloEnvelope =
     realtimeMessageOf ''id1'' 7 7 (utf16 ''hi'') ''bob'' TextMessage None (Some ''alice'')
       offlineService"

definition againEnvelope :: RealtimeMessage where
  "againEnvelope =
     realtimeMessageOf ''id2'' 8 8 (utf16 ''again'') ''bob'' TextMessage None (Some ''alice'')
       offlineService"

text \<open>The service after two \<open>sendMessage\<close> calls made while the socket is not connected.\<close>

definition queuedService :: RealtimeService where
  "queuedService =
     snd (sendMessage ''id2'' 8 8 (utf16 ''again'') ''bob'' [] TextMessage None
            (Some ''alice'')
       (snd (sendMessage ''id1'' 7 7 (utf16 ''hi'') ''bob'' [] TextMessage None
               (Some ''alice'') offlineService)))"

text \<open>
  The same service once the socket has connected: the library sets the flag
  and then fires the \<open>connect\<close> event.
\<close>

definition reconnectedService :: RealtimeService where
  "reconnectedService =
     queuedService\<lparr>rs_socket := Some \<lparr> sk_connected = True, sk_emitted = [] \<rparr>\<rparr>"

section \<open>Message order within a chat\<close>

lemma mset_insertBy: "mset (insertBy comparefn x ys) = add_mset x (mset ys)"
  by (induction ys) simp_all

lemma mset_arraySort: "mset (arraySort comparefn xs) = mset xs"
  by (induction xs) (simp_all add: arraySort_def mset_insertBy)

lemma set_insertBy: "set (insertBy comparefn x ys) = insert x (set ys)"
  by (induction ys) auto

lemma set_arraySort: "set (arraySort comparefn xs) = set xs"
  by (induction xs) (simp_all add: arraySort_def set_insertBy)

lemma not_positive_lessEq:
  "a \<noteq> NaN \<Longrightarrow> b \<noteq> NaN \<Longrightarrow> \<not> isPositive (jsMinus a b) \<Longrightarrow> jsLessEq a b"
  by (cases a; cases b) simp_all

lemma positive_lessEq:
  "a \<noteq> NaN \<Longrightarrow> b \<noteq> NaN \<Longrightarrow> isPositive (jsMinus a b) \<Longrightarrow> jsLessEq b a"
  by (cases a; cases b) simp_all

lemma jsLessEq_trans: "jsLessEq a b \<Longrightarrow> jsLessEq b c \<Longrightarrow> jsLessEq a c"
  by (cases a; cases b; cases c) simp_all

lemma ascending_insertBy:
  assumes "m_timestamp x \<noteq> NaN" and "\<forall>y\<in>set ys. m_timestamp y \<noteq> NaN"
    and "ascendingByTimestamp ys"
  shows "ascendingByTimestamp (insertBy byTimestamp x ys)"
  using assms
proof (induction ys)
  case Nil
  then show ?case by (simp add: ascendingByTimestamp_def)
next
  case (Cons y ys)
  show ?case
  proof (cases "isPositive (byTimestamp x y)")
    case True
    then have yx: "jsLessEq (m_timestamp y) (m_timestamp x)"
      using Cons.prems by (simp add: byTimestamp_def positive_lessEq)
    have "ascendingByTimestamp (insertBy byTimestamp x ys)"
      using Cons by (simp add: ascendingByTimestamp_def)
    with True yx Cons.prems show ?thesis
      by (auto simp: ascendingByTimestamp_def set_insertBy)
  next
    case False
    then have xy: "jsLessEq (m_timestamp x) (m_timestamp y)"
      using Cons.prems by (simp add: byTimestamp_def not_positive_lessEq)
    with False Cons.prems show ?thesis
      by (auto simp: ascendingByTimestamp_def intro: jsLessEq_trans)
  qed
qed

lemma ascending_arraySort:
  "\<forall>x\<in>set xs. m_timestamp x \<noteq> NaN \<Longrightarrow> ascendingByTimestamp (arraySort byTimestamp xs)"
proof (induction xs)
  case Nil
  then show ?case by (simp add: arraySort_def ascendingByTimestamp_def)
next
  case (Cons x xs)
  have "arraySort byTimestamp (x # xs) = insertBy byTimestamp x (arraySort byTimestamp xs)"
    by (simp add: arraySort_def)
  with Cons show ?case by (simp add: ascending_insertBy set_arraySort)
qed

lemma storedMessages_addMessage:
  "storedMessages (addMessage chatId message state) chatId =
     arraySort byTimestamp (storedMessages state chatId @ [message])"
  by (simp add: storedMessages_def addMessage_def Let_def)

lemma storedMessages_addMessages:
  "storedMessages (foldl (\<lambda>st m. addMessage chatId m st) state (ms @ [message])) chatId =
     arraySort byTimestamp
       (storedMessages (foldl (\<lambda>st m. addMessage chatId m st) state ms) chatId @ [message])"
  by (simp add: storedMessages_addMessage)

lemma mset_storedMessages_addMessages:
  "mset (storedMessages (foldl (\<lambda>st m. addMessage chatId m st) state ms) chatId) =
     mset (storedMessages state chatId) + mset ms"
  by (induction ms rule: rev_induct) (simp_all add: storedMessages_addMessage mset_arraySort)

text \<open>
  Claim C1, as stated, fails: a message whose timestamp is missing or not a
  number makes the comparator return \<open>NaN\<close> for every pair it is in, the sort
  reads that as equal, and the messages around it are not put in order. After
  the arrivals with timestamps 5, \<open>NaN\<close>, 1 the chat holds them in that order.
\<close>

theorem nan_timestamp_breaks_order:
  "map m_timestamp
     (storedMessages
        (foldl (\<lambda>st m. addMessage ''c'' m st) initialState
           [incomingFrom ''bob'' ''m1'' (Num 5), incomingFrom ''bob'' ''m2'' NaN,
            incomingFrom ''bob'' ''m3'' (Num 1)]) ''c'')
     = [Num 5, NaN, Num 1]
   \<and> \<not> ascendingByTimestamp
       (storedMessages
          (foldl (\<lambda>st m. addMessage ''c'' m st) initialState
             [incomingFrom ''bob'' ''m1'' (Num 5), incomingFrom ''bob'' ''m2'' NaN,
              incomingFrom ''bob'' ''m3'' (Num 1)]) ''c'')"
proof -
  let ?m1 = "incomingFrom ''bob'' ''m1'' (Num 5)"
  let ?m2 = "incomingFrom ''bob'' ''m2'' NaN"
  let ?m3 = "incomingFrom ''bob'' ''m3'' (Num 1)"
  have e0: "storedMessages initialState ''c'' = []"
    by (simp add: storedMessages_def initialState_def)
  have e1: "storedMessages (addMessage ''c'' ?m1 initialState) ''c'' = [?m1]"
    by (simp add: storedMessages_addMessage e0 arraySort_def)
  have e2: "storedMessages (addMessage ''c'' ?m2 (addMessage ''c'' ?m1 initialState)) ''c''
      = [?m1, ?m2]"
    by (simp add: storedMessages_addMessage e0 arraySort_def byTimestamp_def incomingFrom_def)
  have e3: "storedMessages
      (addMessage ''c'' ?m3 (addMessage ''c'' ?m2 (addMessage ''c'' ?m1 initialState))) ''c''
      = [?m1, ?m2, ?m3]"
    by (simp add: storedMessages_addMessage e0 arraySort_def byTimestamp_def incomingFrom_def)
  show ?thesis
    by (simp add: e3 ascendingByTimestamp_def) (simp add: incomingFrom_def)
qed

text \<open>
  Claim C1, amended. From any store state, for every sequence of
  \<open>addMessage(chatId, message)\<close> calls on one chat (the calls \<open>ms\<close> followed by
  the call for \<open>message\<close>) in which the timestamp of every message, stored before
  or added, is a number other than \<open>NaN\<close>: after each call the list stored for
  that chat is in ascending order of timestamp, whatever the order of the
  timestamps of the added messages. In every case the list holds the messages
  stored before and the added ones, nothing else.
\<close>

theorem addMessage_keeps_chat_sorted:
  assumes "\<forall>m\<in>set (storedMessages state chatId @ ms @ [message]). m_timestamp m \<noteq> NaN"
  shows "ascendingByTimestamp
     (storedMessages (foldl (\<lambda>st m. addMessage chatId m st) state (ms @ [message])) chatId)
   \<and> mset (storedMessages (foldl (\<lambda>st m. addMessage chatId m st) state (ms @ [message])) chatId)
       = mset (storedMessages state chatId) + mset ms + {#message#}"
proof
  let ?before = "storedMessages (foldl (\<lambda>st m. addMessage chatId m st) state ms) chatId"
  have "set ?before = set (storedMessages state chatId) \<union> set ms"
    using mset_storedMessages_addMessages [of chatId state ms]
    by (metis set_mset_mset set_mset_union)
  with assms have "\<forall>m\<in>set (?before @ [message]). m_timestamp m \<noteq> NaN"
    by auto
  then show "ascendingByTimestamp
     (storedMessages (foldl (\<lambda>st m. addMessage chatId m st) state (ms @ [message])) chatId)"
    unfolding storedMessages_addMessages by (rule ascending_arraySort)
  show "mset (storedMessages (foldl (\<lambda>st m. addMessage chatId m st) state (ms @ [message])) chatId)
       = mset (storedMessages state chatId) + mset ms + {#message#}"
    using mset_storedMessages_addMessages [of chatId state "ms @ [message]"] by simp
qed

theorem addMessage_keeps_chat_sorted_witness:
  "map m_timestamp
     (storedMessages
        (foldl (\<lambda>st m. addMessage ''c'' m st) initialState
           ([incomingFrom ''bob'' ''m1'' (Num 5), incomingFrom ''bob'' ''m2'' (Num 1)]
            @ [incomingFrom ''bob'' ''m3'' (Num 3)])) ''c'')
     = [Num 1, Num 3, Num 5]
   \<and> ascendingByTimestamp
       (storedMessages
          (foldl (\<lambda>st m. addMessage ''c'' m st) initialState
             ([incomingFrom ''bob'' ''m1'' (Num 5), incomingFrom ''bob'' ''m2'' (Num 1)]
              @ [incomingFrom ''bob'' ''m3'' (Num 3)])) ''c'')"
proof -
  have h: "\<forall>m\<in>set (storedMessages initialState ''c''
             @ [incomingFrom ''bob'' ''m1'' (Num 5), incomingFrom ''bob'' ''m2'' (Num 1)]
             @ [incomingFrom ''bob'' ''m3'' (Num 3)]). m_timestamp m \<noteq> NaN"
    by (simp add: storedMessages_def initialState_def incomingFrom_def)
  let ?m1 = "incomingFrom ''bob'' ''m1'' (Num 5)"
  let ?m2 = "incomingFrom ''bob'' ''m2'' (Num 1)"
  let ?m3 = "incomingFrom ''bob'' ''m3'' (Num 3)"
  have e0: "storedMessages initialState ''c'' = []"
    by (simp add: storedMessages_def initialState_def)
  have e1: "storedMessages (addMessage ''c'' ?m1 initialState) ''c'' = [?m1]"
    by (simp add: storedMessages_addMessage e0 arraySort_def)
  have e2: "storedMessages (addMessage ''c'' ?m2 (addMessage ''c'' ?m1 initialState)) ''c''
      = [?m2, ?m1]"
    by (simp add: storedMessages_addMessage e0 arraySort_def byTimestamp_def incomingFrom_def)
  have e3: "storedMessages
      (addMessage ''c'' ?m3 (addMessage ''c'' ?m2 (addMessage ''c'' ?m1 initialState))) ''c''
      = [?m2, ?m3, ?m1]"
    by (simp add: storedMessages_addMessage e0 arraySort_def byTimestamp_def incomingFrom_def)
  have v: "map m_timestamp
     (storedMessages
        (foldl (\<lambda>st m. addMessage ''c'' m st) initialState
           ([incomingFrom ''bob'' ''m1'' (Num 5), incomingFrom ''bob'' ''m2'' (Num 1)]
            @ [incomingFrom ''bob'' ''m3'' (Num 3)])) ''c'')
     = [Num 1, Num 3, Num 5]"
    by (simp add: e3) (simp add: incomingFrom_def)
  from addMessage_keeps_chat_sorted [OF h] v show ?thesis by blast
qed


section \<open>The id of a direct chat\<close>

lemma inboundChatId_eq:
  "inboundChatId a b = ''direct_'' @ min a b @ ''_'' @ max a b"
  by (simp add: inboundChatId_def min_def max_def)

lemma expectedChatId_eq:
  "expectedChatId a b = ''direct_'' @ min a b @ ''_'' @ max a b"
  by (simp add: expectedChatId_def min_def max_def)

lemma createDirectChat_no_chats:
  "fst (createDirectChat a n1 n2 n3 b un (state\<lparr>chats := []\<rparr>)) = expectedChatId a b"
  by (simp add: createDirectChat_def Let_def)

lemma chats_addPeer: "chats (addPeer p s) = chats s"
  by (simp add: addPeer_def split: option.splits)

lemma chats_addMessage_ids: "map c_id (chats (addMessage c m s)) = map c_id (chats s)"
  by (simp add: addMessage_def Let_def comp_def cong: map_cong if_cong)

lemma onMessage_no_chats:
  "map c_id (chats (onMessage user t1 t2 t3 incoming (state\<lparr>chats := []\<rparr>)))
     = [inboundChatId (u_publicKey user) (m_sender incoming)]"
  by (simp add: onMessage_def Let_def chats_addMessage_ids chats_addPeer addChat_def
      split: option.splits)

text \<open>
  Claim C2. For participant identifiers \<open>a\<close> and \<open>b\<close>, the id computed by explicit
  chat creation and the id computed by inbound routing are the same whichever
  of the two is the local user: both are \<open>direct_\<close>, the smaller identifier in
  the lexicographic order, \<open>_\<close>, and the larger one. In particular, when \<open>a\<close>
  creates the chat with \<open>b\<close> in a store without chats and \<open>b\<close> receives a message
  of \<open>a\<close> in a store without chats, the chat that \<open>b\<close>'s routing creates has the
  id that \<open>a\<close>'s creation returned.
\<close>

theorem direct_chat_id_symmetric:
  "expectedChatId a b = expectedChatId b a
   \<and> inboundChatId a b = inboundChatId b a
   \<and> inboundChatId b a = expectedChatId a b
   \<and> expectedChatId a b = ''direct_'' @ min a b @ ''_'' @ max a b
   \<and> map c_id (chats (onMessage (user\<lparr>u_publicKey := b\<rparr>) t1 t2 t3
        (incoming\<lparr>m_sender := a\<rparr>) (stateB\<lparr>chats := []\<rparr>)))
       = [fst (createDirectChat a n1 n2 n3 b un (stateA\<lparr>chats := []\<rparr>))]"
  by (simp add: onMessage_no_chats createDirectChat_no_chats inboundChatId_eq expectedChatId_eq
        min.commute max.commute)

section \<open>Blocked users and inbound routing\<close>






text \<open>
  The two actions on the blocked-user set, in this store: each throws at its
  read of the draft, and the set stays as it was.
\<close>

lemma blockUser_throws:
  "blockUser userId state = Inl MapSetPluginNotLoaded
   \<and> unblockUser userId state = Inl MapSetPluginNotLoaded"
  by (simp add: blockUser_def unblockUser_def draftSet_def)

section \<open>Encryption round trip\<close>

lemma charOfByte_byteOfChar: "charOfByte (byteOfChar c) = c"
  by (simp add: charOfByte_def byteOfChar_def unat_of_nat)

lemma byteOfChar_charOfByte: "byteOfChar (charOfByte b) = b"
proof -
  have "unat b < 2 ^ LENGTH(8)" by (rule unsigned_less)
  then have "unat b mod 256 = unat b" by simp
  then show ?thesis by (simp add: charOfByte_def byteOfChar_def)
qed

lemma standIn_base58: "\<forall>b. decodeBase58 standInLib (encodeBase58 standInLib b) = Some b"
  by (simp add: standInLib_def comp_def byteOfChar_charOfByte)

lemma standIn_box:
  "\<forall>m n k. length k = 32 \<longrightarrow> length n = 24 \<longrightarrow>
     (\<exists>c. secretbox standInLib m n k = Some c \<and> secretbox_open standInLib c n k = Some m)"
  by (simp add: standInLib_def)

text \<open>
  Claim C5, as stated, fails: for a plaintext that is a lone surrogate and a
  32-byte key, \<open>encryptWithSharedSecret\<close> throws (the encoder rejects the string,
  and the function has no \<open>try\<close>), so there is no result to decrypt.
\<close>

theorem lone_surrogate_not_encrypted:
  "length (replicate 32 (7::byte)) = 32
   \<and> encryptWithSharedSecret standInLib (replicate 24 1) loneSurrogate (replicate 32 7)
       = Inl LibraryException"
  by (simp add: encryptWithSharedSecret_def standInLib_def loneSurrogate_def)

text \<open>
  Claim C5, amended. For every plaintext string that the UTF-8 codec
  round-trips (\<open>encodeUTF8\<close> accepts it and \<open>decodeUTF8\<close> gives it back from the
  encoded bytes) and every 32-byte key, \<open>encryptWithSharedSecret\<close> returns a
  value, and \<open>decryptWithSharedSecret\<close> of that value under the same key returns
  the plaintext; and these are the only plaintexts for which that holds. The
  libraries are parameters, and the first two hypotheses are their contracts:
  \<open>bs58\<close> decodes what it encoded; \<open>secretbox\<close> accepts a 32-byte key with a
  24-byte nonce, and \<open>secretbox.open\<close> opens the box under the key and nonce that
  made it. The nonce is the 24 bytes that \<open>randomBytes\<close> draws.
\<close>

theorem encrypt_decrypt_roundtrip:
  assumes base58: "\<forall>b. decodeBase58 lib (encodeBase58 lib b) = Some b"
    and box: "\<forall>m n k. length k = 32 \<longrightarrow> length n = 24 \<longrightarrow>
                (\<exists>c. secretbox lib m n k = Some c \<and> secretbox_open lib c n k = Some m)"
    and key: "length sharedSecret = 32"
    and nonce: "length nonce = 24"
  shows "(\<exists>encryptedData.
            encryptWithSharedSecret lib nonce message sharedSecret = Inr encryptedData
          \<and> decryptWithSharedSecret lib encryptedData sharedSecret = Some message)
       = (\<exists>messageBytes.
            encodeUTF8 lib message = Some messageBytes
          \<and> decodeUTF8 lib messageBytes = Some message)"
proof
  assume "\<exists>messageBytes. encodeUTF8 lib message = Some messageBytes
            \<and> decodeUTF8 lib messageBytes = Some message"
  then obtain messageBytes where enc: "encodeUTF8 lib message = Some messageBytes"
    and dec: "decodeUTF8 lib messageBytes = Some message"
    by blast
  from box key nonce obtain encrypted
    where boxed: "secretbox lib messageBytes nonce sharedSecret = Some encrypted"
      and opened: "secretbox_open lib encrypted nonce sharedSecret = Some messageBytes"
    by blast
  let ?e = "\<lparr> e_encrypted = encodeBase58 lib encrypted, e_nonce = encodeBase58 lib nonce,
              e_ephemeralPublicKey = None, e_signature = None,
              e_algorithm = NaclSecretbox, e_version = VERSION \<rparr>"
  have 1: "encryptWithSharedSecret lib nonce message sharedSecret = Inr ?e"
    using enc boxed by (simp add: encryptWithSharedSecret_def)
  have 2: "decryptWithSharedSecret lib ?e sharedSecret = Some message"
    using base58 opened dec by (simp add: decryptWithSharedSecret_def)
  from 1 2 show "\<exists>encryptedData.
            encryptWithSharedSecret lib nonce message sharedSecret = Inr encryptedData
          \<and> decryptWithSharedSecret lib encryptedData sharedSecret = Some message"
    by blast
next
  assume "\<exists>encryptedData.
            encryptWithSharedSecret lib nonce message sharedSecret = Inr encryptedData
          \<and> decryptWithSharedSecret lib encryptedData sharedSecret = Some message"
  then obtain encryptedData
    where e: "encryptWithSharedSecret lib nonce message sharedSecret = Inr encryptedData"
      and d: "decryptWithSharedSecret lib encryptedData sharedSecret = Some message"
    by blast
  from e obtain messageBytes where enc: "encodeUTF8 lib message = Some messageBytes"
    by (auto simp: encryptWithSharedSecret_def split: option.splits)
  from box key nonce obtain encrypted
    where boxed: "secretbox lib messageBytes nonce sharedSecret = Some encrypted"
      and opened: "secretbox_open lib encrypted nonce sharedSecret = Some messageBytes"
    by blast
  from e enc boxed have "encryptedData
      = \<lparr> e_encrypted = encodeBase58 lib encrypted, e_nonce = encodeBase58 lib nonce,
          e_ephemeralPublicKey = None, e_signature = None,
          e_algorithm = NaclSecretbox, e_version = VERSION \<rparr>"
    by (simp add: encryptWithSharedSecret_def)
  with d base58 opened have "decodeUTF8 lib messageBytes = Some message"
    by (simp add: decryptWithSharedSecret_def)
  with enc show "\<exists>messageBytes. encodeUTF8 lib message = Some messageBytes
            \<and> decodeUTF8 lib messageBytes = Some message"
    by blast
qed

lemma utf16_hi: "utf16 ''hi'' = [0x68, 0x69]"
  by (simp add: utf16_def)

theorem encrypt_decrypt_roundtrip_witness:
  "\<exists>encryptedData.
      encryptWithSharedSecret standInLib (replicate 24 1) (utf16 ''hi'') (replicate 32 7)
        = Inr encryptedData
    \<and> decryptWithSharedSecret standInLib encryptedData (replicate 32 7) = Some (utf16 ''hi'')"
proof -
  have enc: "encodeUTF8 standInLib (utf16 ''hi'') = Some [0x68, 0x69]"
    by (simp add: standInLib_def utf16_hi)
  have dec: "decodeUTF8 standInLib [0x68, 0x69] = Some (utf16 ''hi'')"
    by (simp add: standInLib_def utf16_hi)
  have key: "length (replicate 32 (7::byte)) = 32" and nonce: "length (replicate 24 (1::byte)) = 24"
    by simp_all
  from enc dec
  have "\<exists>messageBytes. encodeUTF8 standInLib (utf16 ''hi'') = Some messageBytes
          \<and> decodeUTF8 standInLib messageBytes = Some (utf16 ''hi'')"
    by blast
  with encrypt_decrypt_roundtrip [OF standIn_base58 standIn_box key nonce,
      of "utf16 ''hi''"]
  show ?thesis by blast
qed

text \<open>
  The part of \<open>decryptWithSharedSecret\<close> that is this repository's code: the
  function always returns (every exception is caught), and when
  \<open>secretbox.open\<close> does not return plaintext bytes for the decoded box and
  nonce (the tag does not verify, or the call throws), the result is \<open>null\<close>.
  Whether \<open>secretbox.open\<close> rejects a box under every key but the one that made
  it is a property of the cipher, which is not part of the model.
\<close>

lemma decryptWithSharedSecret_rejected:
  "decodeBase58 lib (e_encrypted encryptedData) = Some encryptedBytes \<Longrightarrow>
   decodeBase58 lib (e_nonce encryptedData) = Some nonceBytes \<Longrightarrow>
   secretbox_open lib encryptedBytes nonceBytes sharedSecret = None \<Longrightarrow>
     decryptWithSharedSecret lib encryptedData sharedSecret = None"
  by (simp add: decryptWithSharedSecret_def)

section \<open>Status of a sent message\<close>

lemma standIn_encrypt_hi:
  "encryptWithSharedSecret standInLib (replicate 24 1) (utf16 ''hi'') (replicate 32 0)
     = Inr \<lparr> e_encrypted = encodeBase58 standInLib
               (replicate 32 0 @ replicate 24 1 @ [0x68, 0x69]),
             e_nonce = encodeBase58 standInLib (replicate 24 1),
             e_ephemeralPublicKey = None, e_signature = None,
             e_algorithm = NaclSecretbox, e_version = VERSION \<rparr>"
  by (simp add: encryptWithSharedSecret_def standInLib_def utf16_hi)

text \<open>
  Claim C3, as stated, fails, at three inputs with a current user set. When the
  transport call rejects, the promise of \<open>sendEncryptedMessage\<close> rejects with
  that error and the message added to the chat keeps the status \<open>sending\<close>.
  When the recipient has no cached key and the key object is frozen (here after
  \<open>generateSharedKey\<close> for another user), the write of the mock key throws and no
  message is added. When the encryption throws (here on a lone surrogate), no
  message is added either.
\<close>

theorem failed_send_stays_sending:
  "fst (sendEncryptedMessage standInLib (replicate 24 1) ''id1'' 7 (Inl SendRejected)
        ''direct_alice_bob'' (utf16 ''hi'') ''bob'' aliceStore)
       = Some (TransportFailure SendRejected)
   \<and> map m_id (storedMessages (snd (sendEncryptedMessage standInLib (replicate 24 1) ''id1'' 7
        (Inl SendRejected) ''direct_alice_bob'' (utf16 ''hi'') ''bob'' aliceStore))
        ''direct_alice_bob'') = [''id1'']
   \<and> map m_status (storedMessages (snd (sendEncryptedMessage standInLib (replicate 24 1)
        ''id1'' 7 (Inl SendRejected) ''direct_alice_bob'' (utf16 ''hi'') ''bob'' aliceStore))
        ''direct_alice_bob'') = [Sending]
   \<and> currentUser aliceWithCarolKey = Some alice
   \<and> fst (sendEncryptedMessage standInLib (replicate 24 1) ''id1'' 7 (Inr ''wire1'')
        ''direct_alice_bob'' (utf16 ''hi'') ''bob'' aliceWithCarolKey)
       = Some FrozenObjectWrite
   \<and> storedMessages (snd (sendEncryptedMessage standInLib (replicate 24 1) ''id1'' 7
        (Inr ''wire1'') ''direct_alice_bob'' (utf16 ''hi'') ''bob'' aliceWithCarolKey))
        ''direct_alice_bob'' = []
   \<and> currentUser aliceStore = Some alice
   \<and> fst (sendEncryptedMessage standInLib (replicate 24 1) ''id1'' 7 (Inr ''wire1'')
        ''direct_alice_bob'' loneSurrogate ''bob'' aliceStore)
       = Some (CryptoFailure LibraryException)
   \<and> storedMessages (snd (sendEncryptedMessage standInLib (replicate 24 1) ''id1'' 7
        (Inr ''wire1'') ''direct_alice_bob'' loneSurrogate ''bob'' aliceStore))
        ''direct_alice_bob'' = []"
proof -
  have user: "currentUser aliceStore = Some alice"
    and nokey: "encryptionKeys aliceStore ''bob'' = None"
    and unfrozen: "\<not> encryptionKeysFrozen aliceStore"
    and empty: "storedMessages aliceStore ''direct_alice_bob'' = []"
    by (simp_all add: aliceStore_def setCurrentUser_def initialState_def storedMessages_def)
  have key: "sharedKeyFor aliceStore ''bob'' = replicate 32 0"
    by (simp add: sharedKeyFor_def nokey)
  have a: "sendEncryptedMessage standInLib (replicate 24 1) ''id1'' 7 (Inl SendRejected)
        ''direct_alice_bob'' (utf16 ''hi'') ''bob'' aliceStore
      = (Some (TransportFailure SendRejected),
         setSendingMessage False
           (addMessage ''direct_alice_bob''
              (outgoingMessage alice ''id1'' 7 (utf16 ''hi'') ''bob''
                 \<lparr> e_encrypted = encodeBase58 standInLib
                     (replicate 32 0 @ replicate 24 1 @ [0x68, 0x69]),
                   e_nonce = encodeBase58 standInLib (replicate 24 1),
                   e_ephemeralPublicKey = None, e_signature = None,
                   e_algorithm = NaclSecretbox, e_version = VERSION \<rparr>)
              ((setSendingMessage True aliceStore)\<lparr>encryptionKeys :=
                 (encryptionKeys (setSendingMessage True aliceStore))
                   (''bob'' \<mapsto> replicate 32 0)\<rparr>)))"
    by (simp add: sendEncryptedMessage_def user nokey unfrozen key standIn_encrypt_hi Let_def)
  have a2: "storedMessages (snd (sendEncryptedMessage standInLib (replicate 24 1) ''id1'' 7
        (Inl SendRejected) ''direct_alice_bob'' (utf16 ''hi'') ''bob'' aliceStore))
        ''direct_alice_bob''
      = [outgoingMessage alice ''id1'' 7 (utf16 ''hi'') ''bob''
                 \<lparr> e_encrypted = encodeBase58 standInLib
                     (replicate 32 0 @ replicate 24 1 @ [0x68, 0x69]),
                   e_nonce = encodeBase58 standInLib (replicate 24 1),
                   e_ephemeralPublicKey = None, e_signature = None,
                   e_algorithm = NaclSecretbox, e_version = VERSION \<rparr>]"
    unfolding a using empty
    by (simp add: storedMessages_def setSendingMessage_def addMessage_def arraySort_def Let_def)
  have fuser: "currentUser aliceWithCarolKey = Some alice"
    and fnokey: "encryptionKeys aliceWithCarolKey ''bob'' = None"
    and frozen: "encryptionKeysFrozen aliceWithCarolKey"
    and fempty: "storedMessages aliceWithCarolKey ''direct_alice_bob'' = []"
    by (simp_all add: aliceWithCarolKey_def generateSharedKey_def aliceStore_def
        setCurrentUser_def initialState_def storedMessages_def)
  have b: "sendEncryptedMessage standInLib (replicate 24 1) ''id1'' 7 (Inr ''wire1'')
        ''direct_alice_bob'' (utf16 ''hi'') ''bob'' aliceWithCarolKey
      = (Some FrozenObjectWrite,
         setSendingMessage False (setSendingMessage True aliceWithCarolKey))"
    by (simp add: sendEncryptedMessage_def fuser fnokey frozen Let_def)
  have b2: "storedMessages (snd (sendEncryptedMessage standInLib (replicate 24 1) ''id1'' 7
        (Inr ''wire1'') ''direct_alice_bob'' (utf16 ''hi'') ''bob'' aliceWithCarolKey))
        ''direct_alice_bob'' = []"
    unfolding b using fempty by (simp add: storedMessages_def setSendingMessage_def)
  have cenc: "encryptWithSharedSecret standInLib (replicate 24 1) loneSurrogate (replicate 32 0)
      = Inl LibraryException"
    by (simp add: encryptWithSharedSecret_def standInLib_def loneSurrogate_def)
  have c: "sendEncryptedMessage standInLib (replicate 24 1) ''id1'' 7 (Inr ''wire1'')
        ''direct_alice_bob'' loneSurrogate ''bob'' aliceStore
      = (Some (CryptoFailure LibraryException),
         setSendingMessage False
           ((setSendingMessage True aliceStore)\<lparr>encryptionKeys :=
                 (encryptionKeys (setSendingMessage True aliceStore))
                   (''bob'' \<mapsto> replicate 32 0)\<rparr>))"
    by (simp add: sendEncryptedMessage_def user nokey unfrozen key cenc Let_def)
  have c2: "storedMessages (snd (sendEncryptedMessage standInLib (replicate 24 1) ''id1'' 7
        (Inr ''wire1'') ''direct_alice_bob'' loneSurrogate ''bob'' aliceStore))
        ''direct_alice_bob'' = []"
    unfolding c using empty by (simp add: storedMessages_def setSendingMessage_def)
  show ?thesis
    using user fuser by (simp add: a2 b2 c2) (simp add: a b c outgoingMessage_def)
qed

lemma spread_sent:
  "spreadMessage msg (noUpdates\<lparr>mu_status := Some Sent\<rparr>) = msg\<lparr>m_status := Sent\<rparr>"
  by (simp add: spreadMessage_def noUpdates_def override_def)

lemma storedMessages_updateMessage:
  "storedMessages (updateMessage chatId messageId updates state) chatId
     = map (\<lambda>msg. if m_id msg = messageId then spreadMessage msg updates else msg)
         (storedMessages state chatId)"
  by (simp add: storedMessages_def updateMessage_def)

lemma storedMessages_setSendingMessage:
  "storedMessages (setSendingMessage b state) chatId = storedMessages state chatId"
  by (simp add: storedMessages_def setSendingMessage_def)

lemma storedMessages_encryptionKeys:
  "storedMessages (state\<lparr>encryptionKeys := ks\<rparr>) chatId = storedMessages state chatId"
  by (simp add: storedMessages_def)

text \<open>
  Claim C3, amended. For every call of \<open>sendEncryptedMessage\<close> with a current
  user set, in which the key of the recipient is cached or the key object can
  be written, and the encryption of the content succeeds: the message built has
  the status \<open>sending\<close> and is added to the chat at once (at its place in the
  order of the sort). On the transport's acknowledgment the promise resolves
  and every message of the chat with the new id has the status \<open>sent\<close>. On a
  transport failure the promise rejects with that error and the chat holds the
  message as it was added, with the status \<open>sending\<close>: the store makes no
  transition to \<open>failed\<close>.
\<close>

theorem sendEncryptedMessage_status:
  assumes user: "currentUser state = Some user"
    and writable: "encryptionKeys state recipientKey \<noteq> None \<or> \<not> encryptionKeysFrozen state"
    and enc: "encryptWithSharedSecret lib nonce content (sharedKeyFor state recipientKey)
                = Inr encryptedData"
  shows "let message = outgoingMessage user newId now content recipientKey encryptedData;
             added = arraySort byTimestamp (storedMessages state chatId @ [message]);
             rejected = sendEncryptedMessage lib nonce newId now (Inl err)
                          chatId content recipientKey state;
             resolved = sendEncryptedMessage lib nonce newId now (Inr messageId)
                          chatId content recipientKey state
         in m_id message = newId \<and> m_status message = Sending
          \<and> fst rejected = Some (TransportFailure err)
          \<and> storedMessages (snd rejected) chatId = added
          \<and> fst resolved = None
          \<and> storedMessages (snd resolved) chatId
              = map (\<lambda>msg. if m_id msg = newId then msg\<lparr>m_status := Sent\<rparr> else msg) added"
proof -
  let ?message = "outgoingMessage user newId now content recipientKey encryptedData"
  let ?s2 = "case encryptionKeys state recipientKey of
               Some key \<Rightarrow> setSendingMessage True state
             | None \<Rightarrow> (setSendingMessage True state)\<lparr>encryptionKeys :=
                 (encryptionKeys (setSendingMessage True state))
                   (recipientKey \<mapsto> sharedKeyFor state recipientKey)\<rparr>"
  have id: "m_id ?message = newId" and st: "m_status ?message = Sending"
    by (simp_all add: outgoingMessage_def)
  have go: "\<not> (encryptionKeys state recipientKey = None \<and> encryptionKeysFrozen state)"
    using writable by blast
  have rej: "sendEncryptedMessage lib nonce newId now (Inl err) chatId content recipientKey state
      = (Some (TransportFailure err), setSendingMessage False (addMessage chatId ?message ?s2))"
    using user enc go by (simp add: sendEncryptedMessage_def Let_def)
  have res: "sendEncryptedMessage lib nonce newId now (Inr messageId) chatId content
        recipientKey state
      = (None,
         setSendingMessage False
           (updateMessage chatId newId (noUpdates\<lparr>mu_status := Some Sent\<rparr>)
              (addMessage chatId ?message ?s2)))"
    using user enc go by (simp add: sendEncryptedMessage_def Let_def id)
  have base: "storedMessages ?s2 chatId = storedMessages state chatId"
    by (simp add: storedMessages_encryptionKeys storedMessages_setSendingMessage
        split: option.splits)
  show ?thesis
    unfolding Let_def rej res
    by (simp add: id st storedMessages_setSendingMessage storedMessages_updateMessage
        storedMessages_addMessage base spread_sent)
qed

theorem sendEncryptedMessage_status_witness:
  "fst (sendEncryptedMessage standInLib (replicate 24 1) ''id1'' 7 (Inr ''wire1'')
        ''direct_alice_bob'' (utf16 ''hi'') ''bob'' aliceStore) = None
   \<and> map m_status (storedMessages (snd (sendEncryptedMessage standInLib (replicate 24 1)
        ''id1'' 7 (Inr ''wire1'') ''direct_alice_bob'' (utf16 ''hi'') ''bob'' aliceStore))
        ''direct_alice_bob'') = [Sent]
   \<and> fst (sendEncryptedMessage standInLib (replicate 24 1) ''id1'' 7 (Inl SendRejected)
        ''direct_alice_bob'' (utf16 ''hi'') ''bob'' aliceStore)
       = Some (TransportFailure SendRejected)
   \<and> map m_status (storedMessages (snd (sendEncryptedMessage standInLib (replicate 24 1)
        ''id1'' 7 (Inl SendRejected) ''direct_alice_bob'' (utf16 ''hi'') ''bob'' aliceStore))
        ''direct_alice_bob'') = [Sending]"
proof -
  have user: "currentUser aliceStore = Some alice"
    by (simp add: aliceStore_def setCurrentUser_def)
  have writable: "encryptionKeys aliceStore ''bob'' \<noteq> None \<or> \<not> encryptionKeysFrozen aliceStore"
    by (simp add: aliceStore_def setCurrentUser_def initialState_def)
  have key: "sharedKeyFor aliceStore ''bob'' = replicate 32 0"
    by (simp add: sharedKeyFor_def aliceStore_def setCurrentUser_def initialState_def)
  have enc: "encryptWithSharedSecret standInLib (replicate 24 1) (utf16 ''hi'')
               (sharedKeyFor aliceStore ''bob'')
      = Inr \<lparr> e_encrypted = encodeBase58 standInLib
                (replicate 32 0 @ replicate 24 1 @ [0x68, 0x69]),
              e_nonce = encodeBase58 standInLib (replicate 24 1),
              e_ephemeralPublicKey = None, e_signature = None,
              e_algorithm = NaclSecretbox, e_version = VERSION \<rparr>"
    unfolding key by (rule standIn_encrypt_hi)
  have empty: "storedMessages aliceStore ''direct_alice_bob'' = []"
    by (simp add: storedMessages_def aliceStore_def setCurrentUser_def initialState_def)
  show ?thesis
    using sendEncryptedMessage_status [OF user writable enc, where newId = "''id1''"
        and now = 7 and err = SendRejected and chatId = "''direct_alice_bob''"
        and messageId = "''wire1''"]
    by (simp add: Let_def empty outgoingMessage_def arraySort_def)
qed

section \<open>Updating and removing a message that is not there\<close>

text \<open>
  Claim C9, as stated, fails when the chat has no message list: \<open>updateMessage\<close>
  and \<open>removeMessage\<close> then store an empty list under the chat id, so the store
  state is not the one before.
\<close>

theorem update_absent_chat_adds_entry:
  "messages initialState ''c'' = None
   \<and> messages (updateMessage ''c'' ''m'' noUpdates initialState) ''c'' = Some []
   \<and> updateMessage ''c'' ''m'' noUpdates initialState \<noteq> initialState
   \<and> messages (removeMessage ''c'' ''m'' initialState) ''c'' = Some []
   \<and> removeMessage ''c'' ''m'' initialState \<noteq> initialState"
proof -
  have a: "messages initialState ''c'' = None" by (simp add: initialState_def)
  have b: "messages (updateMessage ''c'' ''m'' noUpdates initialState) ''c'' = Some []"
    by (simp add: updateMessage_def storedMessages_def a)
  have c: "messages (removeMessage ''c'' ''m'' initialState) ''c'' = Some []"
    by (simp add: removeMessage_def storedMessages_def a)
  from a b have "updateMessage ''c'' ''m'' noUpdates initialState \<noteq> initialState" by auto
  moreover from a c have "removeMessage ''c'' ''m'' initialState \<noteq> initialState" by auto
  ultimately show ?thesis using a b c by simp
qed

lemma map_absent:
  "\<forall>msg\<in>set ms. m_id msg \<noteq> messageId \<Longrightarrow>
     map (\<lambda>msg. if m_id msg = messageId then f msg else msg) ms = ms"
  by (induction ms) auto

lemma filter_absent:
  "\<forall>msg\<in>set ms. m_id msg \<noteq> messageId \<Longrightarrow>
     filter (\<lambda>msg. m_id msg \<noteq> messageId) ms = ms"
  by (induction ms) auto

lemma messages_upd_same:
  "messages state chatId \<noteq> None \<Longrightarrow>
     state\<lparr>messages := (messages state)(chatId \<mapsto> storedMessages state chatId)\<rparr> = state"
  by (auto simp: storedMessages_def fun_upd_idem)

text \<open>
  Claim C9, amended. When no message of the chat has the given id,
  \<open>updateMessage\<close> and \<open>removeMessage\<close> raise no error and change no message: the
  only field they write is the message list of the chat, which keeps its
  content. When the chat has a message list, the store state is unchanged;
  when it has none, the list stored for it afterwards is the empty list.
\<close>

theorem update_remove_absent_message:
  assumes "\<forall>msg\<in>set (storedMessages state chatId). m_id msg \<noteq> messageId"
  shows "updateMessage chatId messageId updates state
           = state\<lparr>messages := (messages state)(chatId \<mapsto> storedMessages state chatId)\<rparr>
       \<and> removeMessage chatId messageId state
           = state\<lparr>messages := (messages state)(chatId \<mapsto> storedMessages state chatId)\<rparr>
       \<and> (messages state chatId \<noteq> None \<longrightarrow>
            updateMessage chatId messageId updates state = state
          \<and> removeMessage chatId messageId state = state)"
  using assms
  by (simp add: updateMessage_def removeMessage_def map_absent filter_absent messages_upd_same)

theorem update_remove_absent_message_witness:
  "storedMessages (addMessage ''c'' (incomingFrom ''bob'' ''m1'' (Num 5)) initialState) ''c''
       = [incomingFrom ''bob'' ''m1'' (Num 5)]
   \<and> m_id (incomingFrom ''bob'' ''m1'' (Num 5)) \<noteq> ''m2''
   \<and> messages (addMessage ''c'' (incomingFrom ''bob'' ''m1'' (Num 5)) initialState) ''c'' \<noteq> None
   \<and> updateMessage ''c'' ''m2'' (noUpdates\<lparr>mu_status := Some Read\<rparr>)
        (addMessage ''c'' (incomingFrom ''bob'' ''m1'' (Num 5)) initialState)
       = addMessage ''c'' (incomingFrom ''bob'' ''m1'' (Num 5)) initialState
   \<and> removeMessage ''c'' ''m2'' (addMessage ''c'' (incomingFrom ''bob'' ''m1'' (Num 5)) initialState)
       = addMessage ''c'' (incomingFrom ''bob'' ''m1'' (Num 5)) initialState"
proof -
  have s: "storedMessages (addMessage ''c'' (incomingFrom ''bob'' ''m1'' (Num 5)) initialState) ''c''
       = [incomingFrom ''bob'' ''m1'' (Num 5)]"
    by (simp add: storedMessages_def addMessage_def Let_def initialState_def arraySort_def)
  have i: "m_id (incomingFrom ''bob'' ''m1'' (Num 5)) \<noteq> ''m2''"
    by (simp add: incomingFrom_def)
  have h: "\<forall>msg\<in>set (storedMessages
              (addMessage ''c'' (incomingFrom ''bob'' ''m1'' (Num 5)) initialState) ''c'').
             m_id msg \<noteq> ''m2''"
    using s i by simp
  have n: "messages (addMessage ''c'' (incomingFrom ''bob'' ''m1'' (Num 5)) initialState) ''c'' \<noteq> None"
    by (simp add: addMessage_def Let_def)
  from update_remove_absent_message [OF h, of "noUpdates\<lparr>mu_status := Some Read\<rparr>"] n
  have "updateMessage ''c'' ''m2'' (noUpdates\<lparr>mu_status := Some Read\<rparr>)
        (addMessage ''c'' (incomingFrom ''bob'' ''m1'' (Num 5)) initialState)
       = addMessage ''c'' (incomingFrom ''bob'' ''m1'' (Num 5)) initialState
   \<and> removeMessage ''c'' ''m2'' (addMessage ''c'' (incomingFrom ''bob'' ''m1'' (Num 5)) initialState)
       = addMessage ''c'' (incomingFrom ''bob'' ''m1'' (Num 5)) initialState"
    by blast
  with s i n show ?thesis by blast
qed

section \<open>The persisted snapshot\<close>

text \<open>
  Claim C10. For every store state, the persisted snapshot holds the current
  user profile, the chats, the messages, the peers, the drafts and the
  last-sync timestamp of the state, and its \<open>encryptionKeys\<close> entry is the empty
  map: the snapshot is the same whatever keys the state caches.
\<close>

theorem partialize_excludes_keys:
  "ps_currentUser (partialize state) = currentUser state
   \<and> ps_chats (partialize state) = chats state
   \<and> ps_messages (partialize state) = messages state
   \<and> ps_peers (partialize state) = peers state
   \<and> ps_drafts (partialize state) = drafts state
   \<and> ps_lastSyncTimestamp (partialize state) = lastSyncTimestamp state
   \<and> ps_encryptionKeys (partialize state) = Map.empty
   \<and> partialize (state\<lparr>encryptionKeys := keys\<rparr>) = partialize state"
  by (simp add: partialize_def)

section \<open>The offline queue\<close>

lemma processMessageQueue_drains:
  "rs_socket s = Some sk \<Longrightarrow> rs_messageQueue s = queue \<Longrightarrow>
     processMessageQueue s
       = s\<lparr>rs_messageQueue := [],
            rs_socket := Some (sk\<lparr>sk_emitted := sk_emitted sk @ map MessageEvent queue\<rparr>)\<rparr>"
proof (induction queue arbitrary: s sk)
  case Nil
  then show ?case by (subst processMessageQueue.simps) simp
next
  case (Cons message rest)
  let ?sk' = "sk\<lparr>sk_emitted := sk_emitted sk @ [MessageEvent message]\<rparr>"
  let ?s' = "sendRealtimeMessage message (s\<lparr>rs_messageQueue := rest\<rparr>)"
  have sock: "rs_socket ?s' = Some ?sk'" and queue: "rs_messageQueue ?s' = rest"
    using Cons.prems by (simp_all add: sendRealtimeMessage_def)
  have "processMessageQueue s = processMessageQueue ?s'"
    using Cons.prems by (subst processMessageQueue.simps) simp
  also have "\<dots> = ?s'\<lparr>rs_messageQueue := [],
      rs_socket := Some (?sk'\<lparr>sk_emitted := sk_emitted ?sk' @ map MessageEvent rest\<rparr>)\<rparr>"
    by (rule Cons.IH [OF sock queue])
  also have "\<dots> = s\<lparr>rs_messageQueue := [],
      rs_socket := Some (sk\<lparr>sk_emitted :=
        sk_emitted sk @ map MessageEvent (message # rest)\<rparr>)\<rparr>"
    using Cons.prems by (simp add: sendRealtimeMessage_def)
  finally show ?case .
qed

text \<open>
  Claim C7. While the service is not connected, \<open>sendMessage\<close> appends the
  envelope it builds at the end of the queue and passes nothing to the socket.
  With a socket present, as in the handler of the \<open>connect\<close> event,
  \<open>processMessageQueue\<close> passes every queued envelope to the socket's \<open>emit\<close>
  once, in the order of the queue, after what the socket was given before, and
  leaves the queue empty; the \<open>connect\<close> handler does so after it has emitted
  the registration.
\<close>

theorem offline_queue_fifo:
  "(\<not> isConnected s \<longrightarrow>
      sendMessage messageId now1 now2 content recipient key messageType fileData username s
        = (messageId,
           s\<lparr>rs_messageQueue := rs_messageQueue s
               @ [realtimeMessageOf messageId now1 now2 content recipient messageType
                    fileData username s]\<rparr>))
   \<and> (rs_socket s = Some sk \<longrightarrow>
        processMessageQueue s
          = s\<lparr>rs_messageQueue := [],
               rs_socket := Some (sk\<lparr>sk_emitted :=
                 sk_emitted sk @ map MessageEvent (rs_messageQueue s)\<rparr>)\<rparr>
      \<and> rs_messageQueue (onConnect s) = []
      \<and> rs_socket (onConnect s)
          = Some (sk\<lparr>sk_emitted := sk_emitted sk
               @ RegisterEvent (rs_currentUser s) # map MessageEvent (rs_messageQueue s)\<rparr>))"
proof (intro conjI impI)
  assume "\<not> isConnected s"
  then show "sendMessage messageId now1 now2 content recipient key messageType fileData
        username s
        = (messageId,
           s\<lparr>rs_messageQueue := rs_messageQueue s
               @ [realtimeMessageOf messageId now1 now2 content recipient messageType
                    fileData username s]\<rparr>)"
    by (simp add: sendMessage_def)
next
  assume sock: "rs_socket s = Some sk"
  then show "processMessageQueue s
          = s\<lparr>rs_messageQueue := [],
               rs_socket := Some (sk\<lparr>sk_emitted :=
                 sk_emitted sk @ map MessageEvent (rs_messageQueue s)\<rparr>)\<rparr>"
    by (rule processMessageQueue_drains) simp
  let ?sk' = "sk\<lparr>sk_emitted := sk_emitted sk @ [RegisterEvent (rs_currentUser s)]\<rparr>"
  let ?s' = "startHeartbeat (s\<lparr>rs_statusChanges := rs_statusChanges s @ [Connected],
                               rs_socket := Some ?sk'\<rparr>)"
  have oc: "onConnect s = processMessageQueue ?s'"
    using sock by (simp add: onConnect_def Let_def)
  have dr: "processMessageQueue ?s'
      = ?s'\<lparr>rs_messageQueue := [],
            rs_socket := Some (?sk'\<lparr>sk_emitted :=
              sk_emitted ?sk' @ map MessageEvent (rs_messageQueue s)\<rparr>)\<rparr>"
    by (rule processMessageQueue_drains) (simp_all add: startHeartbeat_def)
  show "rs_messageQueue (onConnect s) = []"
    unfolding oc dr by simp
  show "rs_socket (onConnect s)
          = Some (sk\<lparr>sk_emitted := sk_emitted sk
               @ RegisterEvent (rs_currentUser s) # map MessageEvent (rs_messageQueue s)\<rparr>)"
    unfolding oc dr by simp
qed

theorem offline_queue_fifo_witness:
  "\<not> isConnected offlineService
   \<and> rs_messageQueue queuedService = [helloEnvelope, againEnvelope]
   \<and> rs_messageQueue (processMessageQueue reconnectedService) = []
   \<and> rs_socket (processMessageQueue reconnectedService)
       = Some \<lparr> sk_connected = True,
                sk_emitted = [MessageEvent helloEnvelope, MessageEvent againEnvelope] \<rparr>
   \<and> rs_messageQueue (onConnect reconnectedService) = []
   \<and> rs_socket (onConnect reconnectedService)
       = Some \<lparr> sk_connected = True,
                sk_emitted = [RegisterEvent (Some ''alice''), MessageEvent helloEnvelope,
                              MessageEvent againEnvelope] \<rparr>"
proof -
  have off: "\<not> isConnected offlineService"
    by (simp add: isConnected_def offlineService_def)
  let ?s1 = "snd (sendMessage ''id1'' 7 7 (utf16 ''hi'') ''bob'' [] TextMessage None
          (Some ''alice'') offlineService)"
  have s1: "?s1 = offlineService\<lparr>rs_messageQueue := [helloEnvelope]\<rparr>"
    using off offline_queue_fifo [of offlineService "''id1''" 7 7 "utf16 ''hi''" "''bob''" "[]"
        TextMessage None "Some ''alice''"]
    by (simp add: helloEnvelope_def offlineService_def newRealtimeService_def)
  have off1: "\<not> isConnected ?s1"
    unfolding s1 by (simp add: isConnected_def offlineService_def)
  have q: "queuedService = offlineService\<lparr>rs_messageQueue := [helloEnvelope, againEnvelope]\<rparr>"
    unfolding queuedService_def
    using off1 offline_queue_fifo [of ?s1 "''id2''" 8 8 "utf16 ''again''" "''bob''" "[]"
        TextMessage None "Some ''alice''"]
    by (simp add: s1 againEnvelope_def realtimeMessageOf_def)
  have sock: "rs_socket reconnectedService = Some \<lparr> sk_connected = True, sk_emitted = [] \<rparr>"
    by (simp add: reconnectedService_def)
  have qq: "rs_messageQueue reconnectedService = [helloEnvelope, againEnvelope]"
    unfolding reconnectedService_def q by simp
  have cu: "rs_currentUser reconnectedService = Some ''alice''"
    unfolding reconnectedService_def q by (simp add: offlineService_def)
  have qs: "rs_messageQueue queuedService = [helloEnvelope, againEnvelope]"
    unfolding q by simp
  from sock offline_queue_fifo [where s = reconnectedService
      and sk = "\<lparr> sk_connected = True, sk_emitted = [] \<rparr>"]
  have "processMessageQueue reconnectedService
          = reconnectedService\<lparr>rs_messageQueue := [],
               rs_socket := Some (\<lparr> sk_connected = True, sk_emitted = [] \<rparr>\<lparr>sk_emitted :=
                 sk_emitted \<lparr> sk_connected = True, sk_emitted = [] \<rparr>
                 @ map MessageEvent (rs_messageQueue reconnectedService)\<rparr>)\<rparr>
      \<and> rs_messageQueue (onConnect reconnectedService) = []
      \<and> rs_socket (onConnect reconnectedService)
          = Some (\<lparr> sk_connected = True, sk_emitted = [] \<rparr>\<lparr>sk_emitted :=
               sk_emitted \<lparr> sk_connected = True, sk_emitted = [] \<rparr>
               @ RegisterEvent (rs_currentUser reconnectedService)
                 # map MessageEvent (rs_messageQueue reconnectedService)\<rparr>)"
    by blast
  then have "rs_messageQueue (processMessageQueue reconnectedService) = []
      \<and> rs_socket (processMessageQueue reconnectedService)
          = Some \<lparr> sk_connected = True,
                   sk_emitted = [MessageEvent helloEnvelope, MessageEvent againEnvelope] \<rparr>
      \<and> rs_messageQueue (onConnect reconnectedService) = []
      \<and> rs_socket (onConnect reconnectedService)
          = Some \<lparr> sk_connected = True,
                   sk_emitted = [RegisterEvent (Some ''alice''), MessageEvent helloEnvelope,
                                 MessageEvent againEnvelope] \<rparr>"
    by (simp add: qq cu)
  with off qs show ?thesis by blast
qed

section \<open>Reconnect backoff\<close>

lemma reconnectDelay_mono: "reconnectDelay n \<le> reconnectDelay (Suc n)"
  by (simp add: reconnectDelay_def min_def)

lemma reconnectDelay_double: "reconnectDelay (Suc n) = min (2 * reconnectDelay n) 30000"
  by (simp add: reconnectDelay_def min_def)

text \<open>
  Claim C8. The delay \<open>scheduleReconnect\<close> computes does not decrease with the
  attempt counter: the delay of the next attempt is twice the delay of this
  one, capped at 30000 ms. Below the maximum attempt count the function
  increments the counter and sets a timer with the delay of the new count; of
  two consecutive calls that set a timer, the second delay is at least the
  first. Once the counter has reached the maximum, the function sets no timer
  and leaves the service as it is.
\<close>

theorem reconnect_backoff:
  "reconnectDelay n \<le> reconnectDelay (Suc n)
   \<and> reconnectDelay (Suc n) = min (2 * reconnectDelay n) 30000
   \<and> (rs_reconnectAttempts s < rs_maxReconnectAttempts s \<longrightarrow>
        scheduleReconnect s
          = (s\<lparr>rs_reconnectAttempts := Suc (rs_reconnectAttempts s)\<rparr>,
             Some (reconnectDelay (Suc (rs_reconnectAttempts s)))))
   \<and> (rs_maxReconnectAttempts s \<le> rs_reconnectAttempts s \<longrightarrow>
        scheduleReconnect s = (s, None))
   \<and> (scheduleReconnect s = (s1, Some d1) \<and> scheduleReconnect s1 = (s2, Some d2) \<longrightarrow>
        d1 \<le> d2 \<and> d2 = min (2 * d1) 30000)"
proof (intro conjI impI)
  show "reconnectDelay n \<le> reconnectDelay (Suc n)" by (rule reconnectDelay_mono)
  show "reconnectDelay (Suc n) = min (2 * reconnectDelay n) 30000"
    by (rule reconnectDelay_double)
next
  assume "rs_reconnectAttempts s < rs_maxReconnectAttempts s"
  then show "scheduleReconnect s
          = (s\<lparr>rs_reconnectAttempts := Suc (rs_reconnectAttempts s)\<rparr>,
             Some (reconnectDelay (Suc (rs_reconnectAttempts s))))"
    by (simp add: scheduleReconnect_def Let_def)
next
  assume "rs_maxReconnectAttempts s \<le> rs_reconnectAttempts s"
  then show "scheduleReconnect s = (s, None)"
    by (simp add: scheduleReconnect_def)
next
  assume a: "scheduleReconnect s = (s1, Some d1) \<and> scheduleReconnect s1 = (s2, Some d2)"
  then have d1: "d1 = reconnectDelay (Suc (rs_reconnectAttempts s))"
    and s1: "rs_reconnectAttempts s1 = Suc (rs_reconnectAttempts s)"
    by (auto simp: scheduleReconnect_def Let_def split: if_splits)
  from a have d2: "d2 = reconnectDelay (Suc (rs_reconnectAttempts s1))"
    by (auto simp: scheduleReconnect_def Let_def split: if_splits)
  show "d1 \<le> d2" unfolding d1 d2 s1 by (rule reconnectDelay_mono)
  show "d2 = min (2 * d1) 30000" unfolding d1 d2 s1 by (rule reconnectDelay_double)
qed

theorem reconnect_backoff_witness:
  "scheduleReconnect newRealtimeService
     = (newRealtimeService\<lparr>rs_reconnectAttempts := 1\<rparr>, Some 2000)
   \<and> scheduleReconnect (newRealtimeService\<lparr>rs_reconnectAttempts := 1\<rparr>)
     = (newRealtimeService\<lparr>rs_reconnectAttempts := 2\<rparr>, Some 4000)
   \<and> (2000::nat) \<le> 4000
   \<and> scheduleReconnect (newRealtimeService\<lparr>rs_reconnectAttempts := 4\<rparr>)
     = (newRealtimeService\<lparr>rs_reconnectAttempts := 5\<rparr>, Some 30000)
   \<and> scheduleReconnect (newRealtimeService\<lparr>rs_reconnectAttempts := 5\<rparr>)
     = (newRealtimeService\<lparr>rs_reconnectAttempts := 5\<rparr>, None)"
proof -
  have a: "scheduleReconnect newRealtimeService
     = (newRealtimeService\<lparr>rs_reconnectAttempts := 1\<rparr>, Some 2000)"
    using reconnect_backoff [of 0 newRealtimeService]
    by (simp add: newRealtimeService_def reconnectDelay_def)
  have b: "scheduleReconnect (newRealtimeService\<lparr>rs_reconnectAttempts := 1\<rparr>)
     = (newRealtimeService\<lparr>rs_reconnectAttempts := 2\<rparr>, Some 4000)"
    using reconnect_backoff [of 0 "newRealtimeService\<lparr>rs_reconnectAttempts := 1\<rparr>"]
    by (simp add: newRealtimeService_def reconnectDelay_def)
  have c: "(2000::nat) \<le> 4000"
    using a b reconnect_backoff [of 0 newRealtimeService
        "newRealtimeService\<lparr>rs_reconnectAttempts := 1\<rparr>" 2000
        "newRealtimeService\<lparr>rs_reconnectAttempts := 2\<rparr>" 4000]
    by blast
  have d: "scheduleReconnect (newRealtimeService\<lparr>rs_reconnectAttempts := 4\<rparr>)
     = (newRealtimeService\<lparr>rs_reconnectAttempts := 5\<rparr>, Some 30000)"
    using reconnect_backoff [of 0 "newRealtimeService\<lparr>rs_reconnectAttempts := 4\<rparr>"]
    by (simp add: newRealtimeService_def reconnectDelay_def)
  have e: "scheduleReconnect (newRealtimeService\<lparr>rs_reconnectAttempts := 5\<rparr>)
     = (newRealtimeService\<lparr>rs_reconnectAttempts := 5\<rparr>, None)"
    using reconnect_backoff [of 0 "newRealtimeService\<lparr>rs_reconnectAttempts := 5\<rparr>"]
    by (simp add: newRealtimeService_def)
  from a b c d e show ?thesis by blast
qed

end
